theory Spec2Isabelle
  imports Main
begin

text \<open>
  The workflow synthesis of \<^verbatim>\<open>src/node-project.ts\<close>: the constructor of
  \<^verbatim>\<open>NodeProject\<close>, which assembles a project from its options, the private method
  \<^verbatim>\<open>createBuildWorkflow\<close>, which builds the job of the build workflow, and the class
  \<^verbatim>\<open>DependenciesUpgradeMechanism\<close>. Mutation is explicit state passing on a record of
  the project; every \<^verbatim>\<open>throw\<close> is an error value returned together with the state
  reached so far.
\<close>

section \<open>JavaScript values and truthiness\<close>

text \<open>
  Several fields of \<^verbatim>\<open>node-project.ts\<close> are typed \<^verbatim>\<open>any\<close> (the values of a trigger
  filter, of \<^verbatim>\<open>checkoutWith\<close>, the job condition). They are modelled by a small datatype of
  JavaScript values. Guards such as \<^verbatim>\<open>if (options.trigger.issue_comment)\<close> test truthiness.
  Numbers are integers here (no NaN); an object is its list of properties.
\<close>

datatype jsval =
    JUndefined
  | JNull
  | JBool bool
  | JNum int
  | JStr string
  | JObj "(string \<times> jsval) list"

fun truthy :: "jsval \<Rightarrow> bool" where
  "truthy JUndefined = False"
| "truthy JNull = False"
| "truthy (JBool b) = b"
| "truthy (JNum n) = (n \<noteq> 0)"
| "truthy (JStr s) = (s \<noteq> [])"
| "truthy (JObj ps) = True"

text \<open>Truthiness of an optional boolean (\<^verbatim>\<open>flag?: boolean\<close>): only \<^verbatim>\<open>true\<close> passes.\<close>

definition truthy_bool :: "bool option \<Rightarrow> bool" where
  "truthy_bool b = (b = Some True)"

text \<open>Truthiness of an optional string: \<^verbatim>\<open>undefined\<close> and \<^verbatim>\<open>''\<close> are falsy.\<close>

definition truthy_str :: "string option \<Rightarrow> bool" where
  "truthy_str s = (case s of None \<Rightarrow> False | Some v \<Rightarrow> v \<noteq> [])"

text \<open>Property read \<^verbatim>\<open>obj.key\<close> on a dictionary: a missing key reads \<^verbatim>\<open>undefined\<close>.\<close>

definition js_prop :: "(string \<rightharpoonup> jsval) \<Rightarrow> string \<Rightarrow> jsval" where
  "js_prop ob k = (case ob k of None \<Rightarrow> JUndefined | Some v \<Rightarrow> v)"

text \<open>The nullish coalescing operator \<^verbatim>\<open>a ?? b\<close>.\<close>

definition nullish :: "'a option \<Rightarrow> 'a \<Rightarrow> 'a" where
  "nullish a b = (case a of None \<Rightarrow> b | Some v \<Rightarrow> v)"

section \<open>Workflow model: steps, jobs, workflows\<close>

text \<open>
  A step descriptor \<^verbatim>\<open>{ name, id?, if?, run?, uses?, with?, env? }\<close>. The field names
  \<^verbatim>\<open>id\<close>, \<^verbatim>\<open>if\<close> and \<^verbatim>\<open>with\<close> are prefixed because they are reserved.
\<close>

record step =
  step_name :: string
  step_id :: "string option"
  step_if :: "string option"
  step_run :: "string option"
  step_uses :: "string option"
  step_with :: "(string \<times> jsval) list option"
  step_env :: "(string \<times> string) list option"

datatype JobPermission = READ | WRITE | NONE

record Job =
  runsOn :: string
  job_env :: "string \<rightharpoonup> string"
  job_permissions :: "string \<rightharpoonup> JobPermission"
  job_if :: "jsval option"
  job_steps :: "step list"
  job_container :: "string option"

text \<open>
  Modelled from the spec: the CI-integration collaborator (\<^verbatim>\<open>./github\<close> is not part of the
  examined source). It holds one workflow document per \<^verbatim>\<open>addWorkflow\<close> call; a workflow
  document accumulates the trigger filters passed to \<^verbatim>\<open>on\<close> (later keys override earlier
  ones) and the named jobs passed to \<^verbatim>\<open>addJobs\<close>. A workflow object is shared between the
  collaborator and the caller, so it is addressed by its index in the collaborator's list.
\<close>

record GithubWorkflow =
  wf_name :: string
  wf_events :: "string \<rightharpoonup> jsval"
  wf_jobs :: "(string \<times> Job) list"

record DependabotOptions =
  dbo_ignoreProjen :: "bool option"
  dbo_labels :: "string list option"

record GitHub =
  workflows :: "GithubWorkflow list"
  mergify :: bool
  dependabots :: "DependabotOptions list"
  pullRequestTemplates :: "string list list"

definition addWorkflow :: "string \<Rightarrow> GitHub \<Rightarrow> nat \<times> GitHub" where
  "addWorkflow nm gh =
     (length (workflows gh),
      gh\<lparr>workflows := workflows gh @
            [\<lparr>wf_name = nm, wf_events = Map.empty, wf_jobs = []\<rparr>]\<rparr>)"

definition workflow_on :: "nat \<Rightarrow> (string \<rightharpoonup> jsval) \<Rightarrow> GitHub \<Rightarrow> GitHub" where
  "workflow_on w events gh =
     gh\<lparr>workflows := (workflows gh)
            [w := (workflows gh ! w)\<lparr>wf_events := wf_events (workflows gh ! w) ++ events\<rparr>]\<rparr>"

definition workflow_addJobs :: "nat \<Rightarrow> (string \<times> Job) list \<Rightarrow> GitHub \<Rightarrow> GitHub" where
  "workflow_addJobs w jobs gh =
     gh\<lparr>workflows := (workflows gh)
            [w := (workflows gh ! w)\<lparr>wf_jobs := wf_jobs (workflows gh ! w) @ jobs\<rparr>]\<rparr>"

section \<open>Collaborators of the project\<close>

datatype NodePackageManager = NPM | YARN | PNPM

datatype NpmTaskExecution = PROJEN | SHELL

text \<open>
  Modelled from the spec: the package manager adapter (\<^verbatim>\<open>./node-package\<close> is not part of
  the examined source). Its getters are fields whose values are inputs of the assembly; the
  script table and the development dependencies are what \<^verbatim>\<open>setScript\<close> and
  \<^verbatim>\<open>addDevDeps\<close> mutate.
\<close>

record NodePackage =
  packageManager :: NodePackageManager
  minNodeVersion :: "string option"
  projenCommand :: string
  installCommand :: string
  npmTaskExecution :: NpmTaskExecution
  license :: "string option"
  pkg_npmDistTag :: string
  pkg_npmRegistry :: string
  npmTokenSecret :: "string option"
  packageName :: string
  scripts :: "(string \<times> string) list"
  devDeps :: "string list"

datatype TaskCategory = BUILD | TEST

datatype TaskStep = Exec string | Spawn string

text \<open>
  Modelled from the spec: the task registry (\<^verbatim>\<open>./tasks\<close> is absent). A task is looked up
  by name, shell commands are appended with \<^verbatim>\<open>exec\<close>, and \<^verbatim>\<open>spawn\<close> makes a task
  run another one.
\<close>

record Task =
  task_name :: string
  task_description :: string
  task_category :: TaskCategory
  task_steps :: "TaskStep list"

text \<open>
  Modelled from the spec: an ignore file (\<^verbatim>\<open>./ignore-file\<close> is absent) is the sequence
  of patterns it was asked to exclude or include.
\<close>

datatype IgnoreEntry = Exclude string | Include string

record JestConfig =
  coverageDirectory :: string

text \<open>
  Modelled from the spec: the test-configuration collaborator (\<^verbatim>\<open>./jest\<close> is absent). It
  either reports an active configuration, which carries the coverage directory, or none.
\<close>

record Jest =
  config :: "JestConfig option"

text \<open>
  Modelled from the spec: the auto-merge policy (\<^verbatim>\<open>./github\<close> is absent), of which the
  constructor reads the label; the upgrade pipeline and its options
  (\<^verbatim>\<open>./upgrade-dependencies\<close> is absent), with the fields the source sets; and the
  release collaborator (\<^verbatim>\<open>./release\<close> is absent) with its publisher.
\<close>

record AutoMerge =
  am_buildJob :: "string option"
  autoMergeLabel :: string

datatype UpgradeDependenciesSchedule = expressions "string list"

record UpgradeDependenciesWorkflowOptions =
  schedule :: "UpgradeDependenciesSchedule option"
  secret :: "string option"
  labels :: "string list option"

record UpgradeDependenciesOptions =
  udo_include :: "string list option"
  udo_taskName :: "string option"
  udo_pullRequestTitle :: "string option"
  udo_ignoreProjen :: "bool option"
  udo_workflow :: "bool option"
  udo_workflowOptions :: "UpgradeDependenciesWorkflowOptions option"

record PublishToNpmOptions =
  distTag :: string
  registry :: string
  npmTokenSecretName :: "string option"

record Release =
  rel_task :: string
  rel_releaseWorkflowSetupSteps :: "step list"
  rel_publishToNpm :: "PublishToNpmOptions list"

text \<open>
  Modelled from the spec: every collaborator built with \<^verbatim>\<open>new X(project, options)\<close>
  whose class is outside the examined source registers itself with the project; the
  model records the options it was given, in construction order.
\<close>

datatype Component =
    LicenseC string "string option" "string option"
  | JestC "jsval option"
  | ReleaseC
  | AutoMergeC
  | UpgradeDependenciesC UpgradeDependenciesOptions
  | ProjenrcC "jsval option"

section \<open>The project under assembly\<close>

text \<open>
  The state of a \<^verbatim>\<open>NodeProject\<close>: what the base class \<^verbatim>\<open>Project\<close> provides (parent,
  CI-integration collaborator, task registry, ignore file, components) and the fields the
  constructor assigns. A field that has not been assigned yet reads \<^verbatim>\<open>undefined\<close>: it is
  \<open>None\<close> for an optional field, and the falsy \<open>False\<close> or \<open>[]\<close> otherwise.
\<close>

record NodeProject =
  parent :: bool
  github :: "GitHub option"
  tasks :: "Task list"
  tasks_env :: "(string \<times> string) list"
  gitignore :: "IgnoreEntry list"
  components :: "Component list"
  package :: NodePackage
  npmignore :: "IgnoreEntry list option"
  compileTask :: string
  testTask :: string
  testCompileTask :: string
  buildTask :: string
  autoMerge :: "AutoMerge option"
  buildWorkflow :: "nat option"
  buildWorkflowJobId :: "string option"
  release :: "Release option"
  nodeVersion :: "string option"
  antitamper :: bool
  npmDistTag :: string
  npmRegistry :: string
  runScriptCommand :: string
  jest :: "Jest option"

text \<open>
  Every \<^verbatim>\<open>throw new Error(...)\<close> of the source, one constructor per throw site. The source
  has a single error class; configuration errors and the missing-collaborator error differ
  only in their message.
\<close>

datatype error =
    NpmignoreNotDefined
  | DefaultReleaseBranchRequired
  | NoGithubSupport
  | IssueCommentTrigger
  | ReleaseToNpmNotSupported
  | ReleaseBranchesNotSupported
  | ReleaseEveryCommitNotSupported
  | ReleaseScheduleNotSupported
  | DependabotWithDepsUpgrade

text \<open>
  A method either throws, leaving the project in the state reached so far, or returns a
  value and the updated project.
\<close>

type_synonym 'a result = "(error \<times> NodeProject) + ('a \<times> NodeProject)"

section \<open>Workflow steps\<close>

definition mk_step :: "string \<Rightarrow> step" where
  "mk_step nm = \<lparr>step_name = nm, step_id = None, step_if = None, step_run = None,
     step_uses = None, step_with = None, step_env = None\<rparr>"

definition installWorkflowSteps :: "NodeProject \<Rightarrow> step list" where
  "installWorkflowSteps this =
     (if truthy_str (nodeVersion this)
      then [(mk_step ''Setup Node.js'')
              \<lparr>step_uses := Some ''actions/setup-node@v1'',
               step_with := Some [(''node-version'', JStr (the (nodeVersion this)))]\<rparr>]
      else [])
     @ [(mk_step ''Install dependencies'')
          \<lparr>step_run := Some (installCommand (package this))\<rparr>]"

text \<open>
  The \<^verbatim>\<open>default: throw\<close> branches of the two \<^verbatim>\<open>switch\<close> statements over the
  enumerations (task execution mode here, package manager in the constructor) have no
  counterpart: the datatypes have exactly the enumerated values.
\<close>

definition runTaskCommand :: "NodeProject \<Rightarrow> string \<Rightarrow> string" where
  "runTaskCommand this task =
     (case npmTaskExecution (package this) of
        PROJEN \<Rightarrow> projenCommand (package this) @ '' '' @ task
      | SHELL \<Rightarrow> runScriptCommand this @ '' '' @ task)"

record NodeBuildWorkflowOptions =
  jobId :: string
  image :: "string option"
  condition :: "jsval option"
  trigger :: "(string \<rightharpoonup> jsval) option"
  codeCov :: "bool option"
  codeCovTokenSecret :: "string option"
  preBuildSteps :: "step list option"
  preCheckoutSteps :: "step list option"
  postSteps :: "step list option"
  checkoutWith :: "(string \<times> jsval) list option"
  antitamperDisabled :: "bool option"
  env :: "(string \<rightharpoonup> string) option"
  permissions :: "string \<rightharpoonup> JobPermission"

definition antitamperSteps :: "NodeBuildWorkflowOptions \<Rightarrow> NodeProject \<Rightarrow> step list" where
  "antitamperSteps options this =
     (if truthy_bool (antitamperDisabled options) \<or> \<not> antitamper this then []
      else [(mk_step ''Anti-tamper check'')
              \<lparr>step_run := Some ''git diff --ignore-space-at-eol --exit-code''\<rparr>])"

definition checkoutStep :: "NodeBuildWorkflowOptions \<Rightarrow> step" where
  "checkoutStep options =
     (mk_step ''Checkout'')
       \<lparr>step_uses := Some ''actions/checkout@v2'',
        step_with := (case checkoutWith options of None \<Rightarrow> None | Some w \<Rightarrow> Some w)\<rparr>"

definition gitIdentityStep :: step where
  \<open>gitIdentityStep =
     (mk_step ''Set git identity'')
       \<lparr>step_run := Some (''git config user.name "Automation"'' @ [CHR 0x0A] @
                          ''git config user.email "github-actions@github.com"'')\<rparr>\<close>

definition buildStep :: "NodeProject \<Rightarrow> step" where
  "buildStep this =
     (mk_step ''Build'')\<lparr>step_run := Some (runTaskCommand this (buildTask this))\<rparr>"

text \<open>
  The coverage upload: \<^verbatim>\<open>(options.codeCov || options.codeCovTokenSecret) && this.jest?.config\<close>
  decides whether the step exists, \<^verbatim>\<open>options.codeCovTokenSecret\<close> alone whether it carries
  a token.
\<close>

definition codeCovSteps :: "NodeBuildWorkflowOptions \<Rightarrow> NodeProject \<Rightarrow> step list" where
  "codeCovSteps options this =
     (if truthy_bool (codeCov options) \<or> truthy_str (codeCovTokenSecret options) then
        (case jest this of
           None \<Rightarrow> []
         | Some j \<Rightarrow>
             (case config j of
                None \<Rightarrow> []
              | Some c \<Rightarrow>
                  [(mk_step ''Upload coverage to Codecov'')
                     \<lparr>step_uses := Some ''codecov/codecov-action@v1'',
                      step_with := Some
                        (if truthy_str (codeCovTokenSecret options)
                         then [(''token'', JStr (''${{ secrets.'' @
                                   the (codeCovTokenSecret options) @ '' }}'')),
                               (''directory'', JStr (coverageDirectory c))]
                         else [(''directory'', JStr (coverageDirectory c))])\<rparr>]))
      else [])"

definition buildJobSteps :: "NodeBuildWorkflowOptions \<Rightarrow> NodeProject \<Rightarrow> step list" where
  "buildJobSteps options this =
     nullish (preCheckoutSteps options) []
     @ [checkoutStep options]
     @ installWorkflowSteps this
     @ antitamperSteps options this
     @ [gitIdentityStep]
     @ nullish (preBuildSteps options) []
     @ [buildStep this]
     @ codeCovSteps options this
     @ nullish (postSteps options) []
     @ antitamperSteps options this"

definition buildJob :: "NodeBuildWorkflowOptions \<Rightarrow> NodeProject \<Rightarrow> Job" where
  "buildJob options this =
     (let job = \<lparr>runsOn = ''ubuntu-latest'',
                 job_env = [''CI'' \<mapsto> ''true''] ++ nullish (env options) Map.empty,
                 job_permissions = permissions options,
                 job_if = (case condition options of
                             None \<Rightarrow> None
                           | Some c \<Rightarrow> if truthy c then Some c else None),
                 job_steps = buildJobSteps options this,
                 job_container = None\<rparr>
      in if truthy_str (image options) then job\<lparr>job_container := image options\<rparr> else job)"

text \<open>
  The guard \<^verbatim>\<open>if (options.trigger) { if (options.trigger.issue_comment) throw ... }\<close>:
  it reads the value stored under the key and tests its truthiness.
\<close>

definition issue_comment_trigger :: "NodeBuildWorkflowOptions \<Rightarrow> bool" where
  "issue_comment_trigger options =
     (case trigger options of
        None \<Rightarrow> False
      | Some t \<Rightarrow> truthy (js_prop t ''issue_comment''))"

definition createBuildWorkflow ::
  "string \<Rightarrow> NodeBuildWorkflowOptions \<Rightarrow> NodeProject \<Rightarrow> nat result" where
  "createBuildWorkflow nm options this =
     (let buildJobId = jobId options in
      case github this of
        None \<Rightarrow> Inl (NoGithubSupport, this)
      | Some gh \<Rightarrow>
          (let (workflow, gh1) = addWorkflow nm gh in
           if issue_comment_trigger options
           then Inl (IssueCommentTrigger, this\<lparr>github := Some gh1\<rparr>)
           else
             (let gh2 = (case trigger options of
                           None \<Rightarrow> gh1
                         | Some t \<Rightarrow> workflow_on workflow t gh1);
                  gh3 = workflow_on workflow [''workflowDispatch'' \<mapsto> JObj []] gh2;
                  job = buildJob options this;
                  gh4 = workflow_addJobs workflow [(buildJobId, job)] gh3
              in Inr (workflow, this\<lparr>github := Some gh4\<rparr>))))"

section \<open>The dependency upgrade mechanism\<close>

text \<open>
  The class holds a private closure chosen by one of three static factories;
  the closure is represented by the factory that built it and the options it captured.
\<close>

datatype bind_closure =
    BindNone
  | BindDependabot DependabotOptions
  | BindGithubWorkflow UpgradeDependenciesOptions

record DependenciesUpgradeMechanism =
  closure :: bind_closure
  ignoresProjen_opt :: "bool option"

definition mechanism_NONE :: DependenciesUpgradeMechanism where
  "mechanism_NONE = \<lparr>closure = BindNone, ignoresProjen_opt = Some True\<rparr>"

definition dependabot_default :: DependabotOptions where
  "dependabot_default = \<lparr>dbo_ignoreProjen = None, dbo_labels = None\<rparr>"

definition dependabot :: "DependabotOptions \<Rightarrow> DependenciesUpgradeMechanism" where
  "dependabot options =
     \<lparr>closure = BindDependabot options, ignoresProjen_opt = dbo_ignoreProjen options\<rparr>"

definition githubWorkflow_default :: UpgradeDependenciesOptions where
  "githubWorkflow_default =
     \<lparr>udo_include = None, udo_taskName = None, udo_pullRequestTitle = None,
      udo_ignoreProjen = None, udo_workflow = None, udo_workflowOptions = None\<rparr>"

definition githubWorkflow :: "UpgradeDependenciesOptions \<Rightarrow> DependenciesUpgradeMechanism" where
  "githubWorkflow options =
     \<lparr>closure = BindGithubWorkflow options, ignoresProjen_opt = udo_ignoreProjen options\<rparr>"

definition ignoresProjen :: "DependenciesUpgradeMechanism \<Rightarrow> bool" where
  "ignoresProjen m = nullish (ignoresProjen_opt m) True"

definition bind :: "DependenciesUpgradeMechanism \<Rightarrow> NodeProject \<Rightarrow> NodeProject" where
  "bind m project =
     (case closure m of
        BindNone \<Rightarrow> project
      | BindDependabot options \<Rightarrow>
          (case github project of
             None \<Rightarrow> project
           | Some gh \<Rightarrow>
               project\<lparr>github := Some (gh\<lparr>dependabots := dependabots gh @ [options]\<rparr>)\<rparr>)
      | BindGithubWorkflow options \<Rightarrow>
          project\<lparr>components := components project @ [UpgradeDependenciesC options]\<rparr>)"

section \<open>Options and inputs of the assembly\<close>

text \<open>
  The fields of \<^verbatim>\<open>NodeProjectOptions\<close> the constructor reads, prefixed with \<open>opt_\<close>
  since several of them share their name with a field of the project. The release options
  come from \<^verbatim>\<open>ReleaseProjectOptions\<close>, which is outside the examined source: the branch
  list is a list of names and the schedule a cron string, as the spec describes them.
\<close>

record NodeProjectOptions =
  opt_copyrightOwner :: "string option"
  opt_authorName :: "string option"
  opt_copyrightPeriod :: "string option"
  opt_projenVersion :: "string option"
  opt_projenDevDependency :: "bool option"
  opt_buildWorkflow :: "bool option"
  opt_mutableBuild :: "bool option"
  opt_antitamper :: "bool option"
  opt_codeCov :: "bool option"
  opt_codeCovTokenSecret :: "string option"
  opt_releaseWorkflow :: "bool option"
  opt_releaseToNpm :: "bool option"
  opt_releaseBranches :: "string list option"
  opt_releaseEveryCommit :: "bool option"
  opt_releaseSchedule :: "string option"
  opt_releaseWorkflowSetupSteps :: "step list option"
  opt_defaultReleaseBranch :: "string option"
  opt_workflowNodeVersion :: "string option"
  opt_workflowContainerImage :: "string option"
  opt_dependabot :: "bool option"
  opt_depsUpgrade :: "DependenciesUpgradeMechanism option"
  opt_mergifyAutoMergeLabel :: "string option"
  opt_projenUpgradeSecret :: "string option"
  opt_projenUpgradeAutoMerge :: "bool option"
  opt_projenUpgradeSchedule :: "string list option"
  opt_projenDuringBuild :: "bool option"
  opt_npmignoreEnabled :: "bool option"
  opt_npmignore :: "string list option"
  opt_pullRequestTemplate :: "bool option"
  opt_pullRequestTemplateContents :: "string option"
  opt_gitignore :: "string list option"
  opt_jest :: "bool option"
  opt_jestOptions :: "jsval option"
  opt_projenrcJs :: "bool option"
  opt_projenrcJsOptions :: "jsval option"

text \<open>
  What the base class constructor \<^verbatim>\<open>super(options)\<close> leaves behind (\<^verbatim>\<open>./project\<close> is
  outside the examined source): it is an input of the assembly.
\<close>

record Project =
  base_parent :: bool
  base_github :: "GitHub option"
  base_tasks :: "Task list"
  base_tasks_env :: "(string \<times> string) list"
  base_gitignore :: "IgnoreEntry list"
  base_components :: "Component list"

text \<open>
  The collaborators and constants the constructor takes from modules outside the examined
  source: the package built by \<^verbatim>\<open>new NodePackage\<close>, what \<^verbatim>\<open>new Jest\<close> and
  \<^verbatim>\<open>new AutoMerge\<close> report for the options they are given, and the constants of
  \<^verbatim>\<open>./common\<close> and \<^verbatim>\<open>./version\<close>. What these constructors register with the project
  beyond the object they return is outside the examined source.
\<close>

record Collaborators =
  newNodePackage :: NodePackage
  newJest :: "jsval option \<Rightarrow> Jest"
  newAutoMerge :: "string option \<Rightarrow> string option \<Rightarrow> AutoMerge"
  PROJEN_RC :: string
  PROJEN_DIR :: string
  PROJEN_VERSION :: string
  STANDARD_VERSION :: string

section \<open>Helpers of the constructor\<close>

definition addTask :: "string \<Rightarrow> string \<Rightarrow> TaskCategory \<Rightarrow> NodeProject \<Rightarrow> NodeProject" where
  "addTask nm descr cat this =
     this\<lparr>tasks := tasks this @
             [\<lparr>task_name = nm, task_description = descr, task_category = cat,
               task_steps = []\<rparr>]\<rparr>"

definition task_push :: "string \<Rightarrow> TaskStep \<Rightarrow> NodeProject \<Rightarrow> NodeProject" where
  "task_push nm st this =
     this\<lparr>tasks := map (\<lambda>t. if task_name t = nm
                              then t\<lparr>task_steps := task_steps t @ [st]\<rparr> else t)
                       (tasks this)\<rparr>"

definition setScript :: "string \<Rightarrow> string \<Rightarrow> NodeProject \<Rightarrow> NodeProject" where
  "setScript nm command this =
     this\<lparr>package := (package this)
             \<lparr>scripts := filter (\<lambda>e. fst e \<noteq> nm) (scripts (package this)) @ [(nm, command)]\<rparr>\<rparr>"

definition addDevDeps :: "string \<Rightarrow> NodeProject \<Rightarrow> NodeProject" where
  "addDevDeps dep this =
     this\<lparr>package := (package this)\<lparr>devDeps := devDeps (package this) @ [dep]\<rparr>\<rparr>"

definition gitignore_exclude :: "string list \<Rightarrow> NodeProject \<Rightarrow> NodeProject" where
  "gitignore_exclude ps this = this\<lparr>gitignore := gitignore this @ map Exclude ps\<rparr>"

definition gitignore_include :: "string \<Rightarrow> NodeProject \<Rightarrow> NodeProject" where
  "gitignore_include pat this = this\<lparr>gitignore := gitignore this @ [Include pat]\<rparr>"

text \<open>\<^verbatim>\<open>this.npmignore?.exclude(...)\<close>: nothing happens when the file is not defined.\<close>

definition npmignore_exclude :: "string list \<Rightarrow> NodeProject \<Rightarrow> NodeProject" where
  "npmignore_exclude ps this =
     (case npmignore this of
        None \<Rightarrow> this
      | Some f \<Rightarrow> this\<lparr>npmignore := Some (f @ map Exclude ps)\<rparr>)"

definition addLicense :: "NodeProjectOptions \<Rightarrow> NodeProject \<Rightarrow> NodeProject" where
  "addLicense options this =
     (if truthy_str (license (package this))
      then this\<lparr>components := components this @
                   [LicenseC (the (license (package this)))
                      (case opt_copyrightOwner options of
                         Some ow \<Rightarrow> Some ow
                       | None \<Rightarrow> opt_authorName options)
                      (opt_copyrightPeriod options)]\<rparr>
      else this)"

definition defaultGitIgnore :: "string list" where
  "defaultGitIgnore =
     [''# Logs'', ''logs'', ''*.log'', ''npm-debug.log*'', ''yarn-debug.log*'',
      ''yarn-error.log*'', ''lerna-debug.log*'',
      ''# Diagnostic reports (https://nodejs.org/api/report.html)'',
      ''report.[0-9]*.[0-9]*.[0-9]*.[0-9]*.json'',
      ''# Runtime data'', ''pids'', ''*.pid'', ''*.seed'', ''*.pid.lock'',
      ''# Directory for instrumented libs generated by jscoverage/JSCover'', ''lib-cov'',
      ''# Coverage directory used by tools like istanbul'', ''coverage'', ''*.lcov'',
      ''# nyc test coverage'', ''.nyc_output'',
      ''# Compiled binary addons (https://nodejs.org/api/addons.html)'', ''build/Release'',
      ''# Dependency directories'', ''node_modules/'', ''jspm_packages/'',
      ''# TypeScript cache'', ''*.tsbuildinfo'',
      ''# Optional eslint cache'', ''.eslintcache'',
      ''# Output of '' @ [CHR 0x27] @ ''npm pack'' @ [CHR 0x27], ''*.tgz'',
      ''# Yarn Integrity file'', ''.yarn-integrity'',
      ''# parcel-bundler cache (https://parceljs.org/)'', ''.cache'']"

definition addDefaultGitIgnore :: "NodeProject \<Rightarrow> NodeProject" where
  "addDefaultGitIgnore this = gitignore_exclude defaultGitIgnore this"

definition PROJEN_SCRIPT :: string where
  "PROJEN_SCRIPT = ''projen''"

text \<open>The steps that push files changed by the build back to the pull-request branch.\<close>

definition updateRepo :: "step list" where
  \<open>updateRepo =
     (let branch = ''${{ github.event.pull_request.head.ref }}'';
          buildJobId = ''build'';
          gitDiffStepId = ''git_diff'';
          hasChangesCondName = ''has_changes'';
          hasChanges = ''steps.'' @ gitDiffStepId @ ''.outputs.'' @ hasChangesCondName;
          repoFullName = ''github.event.pull_request.head.repo.full_name''
      in [(mk_step ''Check for changes'')
            \<lparr>step_id := Some gitDiffStepId,
             step_run := Some (''git diff --exit-code || echo "::set-output name='' @
                               hasChangesCondName @ ''::true"'')\<rparr>,
          (mk_step ''Commit and push changes (if changed)'')
            \<lparr>step_if := Some hasChanges,
             step_run := Some (''git add . && git commit -m "chore: self mutation" '' @
                               ''&& git push origin HEAD:'' @ branch)\<rparr>,
          (mk_step ''Update status check (if changed)'')
            \<lparr>step_if := Some hasChanges,
             step_run := Some (''gh api'' @ '' '' @ ''-X POST'' @ '' '' @
                               ''/repos/${{ '' @ repoFullName @ '' }}/check-runs'' @ '' '' @
                               ''-F name="'' @ buildJobId @ ''"'' @ '' '' @
                               ''-F head_sha="$(git rev-parse HEAD)"'' @ '' '' @
                               ''-F status="completed"'' @ '' '' @
                               ''-F conclusion="success"''),
             step_env := Some [(''GITHUB_TOKEN'', ''${{ secrets.GITHUB_TOKEN }}'')]\<rparr>])\<close>

definition buildEnabled :: "NodeProjectOptions \<Rightarrow> NodeProject \<Rightarrow> bool" where
  "buildEnabled options this =
     nullish (opt_buildWorkflow options) (if parent this then False else True)"

definition mutableBuilds :: "NodeProjectOptions \<Rightarrow> bool" where
  "mutableBuilds options = nullish (opt_mutableBuild options) True"

definition releaseEnabled :: "NodeProjectOptions \<Rightarrow> NodeProject \<Rightarrow> bool" where
  "releaseEnabled options this =
     nullish (opt_releaseWorkflow options) (if parent this then False else True)"

text \<open>The options the constructor passes to \<^verbatim>\<open>createBuildWorkflow('Build', ...)\<close>.\<close>

definition buildWorkflowOptions :: "NodeProjectOptions \<Rightarrow> NodeBuildWorkflowOptions" where
  "buildWorkflowOptions options =
     \<lparr>jobId = ''build'',
      image = opt_workflowContainerImage options,
      condition = None,
      trigger = Some [''pull_request'' \<mapsto> JObj []],
      codeCov = Some (nullish (opt_codeCov options) False),
      codeCovTokenSecret = opt_codeCovTokenSecret options,
      preBuildSteps = None,
      preCheckoutSteps = None,
      postSteps = Some updateRepo,
      checkoutWith =
        (if mutableBuilds options
         then Some [(''ref'', JStr ''${{ github.event.pull_request.head.ref }}''),
                    (''repository'',
                     JStr ''${{ github.event.pull_request.head.repo.full_name }}'')]
         else None),
      antitamperDisabled = Some (mutableBuilds options),
      env = None,
      permissions = [''checks'' \<mapsto> WRITE, ''contents'' \<mapsto> WRITE]\<rparr>"

definition dependenciesUpgrade :: "NodeProjectOptions \<Rightarrow> DependenciesUpgradeMechanism" where
  "dependenciesUpgrade options =
     (let defaultDependenciesUpgrade =
            (if nullish (opt_dependabot options) False then dependabot dependabot_default
             else githubWorkflow githubWorkflow_default)
      in nullish (opt_depsUpgrade options) defaultDependenciesUpgrade)"

text \<open>The options of the secondary pipeline that upgrades only the generator.\<close>

definition projenUpgradeOptions ::
  "NodeProjectOptions \<Rightarrow> NodeProject \<Rightarrow> UpgradeDependenciesOptions" where
  "projenUpgradeOptions options this =
     (let projenAutoMerge = nullish (opt_projenUpgradeAutoMerge options) True in
      \<lparr>udo_include = Some [''projen''],
       udo_taskName = Some ''upgrade-projen'',
       udo_pullRequestTitle = Some ''upgrade projen'',
       udo_ignoreProjen = Some False,
       udo_workflow = Some (truthy_str (opt_projenUpgradeSecret options)),
       udo_workflowOptions = Some
         \<lparr>schedule = Some (expressions
              (nullish (opt_projenUpgradeSchedule options) [''0 6 * * *''])),
          secret = opt_projenUpgradeSecret options,
          labels = Some
            (case autoMerge this of
               None \<Rightarrow> []
             | Some am \<Rightarrow>
                 if projenAutoMerge \<and> autoMergeLabel am \<noteq> []
                 then [autoMergeLabel am] else [])\<rparr>\<rparr>)"

section \<open>The constructor of NodeProject\<close>

text \<open>
  The constructor is one long sequence of statements. It is cut at its
  \<^verbatim>\<open>throw\<close> statements into consecutive blocks; a block that can throw returns the
  error together with the state reached, the others return the state.
\<close>

type_synonym assembly = "(error \<times> NodeProject) + NodeProject"

definition and_then :: "assembly \<Rightarrow> (NodeProject \<Rightarrow> assembly) \<Rightarrow> assembly" where
  "and_then r f = (case r of Inl e \<Rightarrow> Inl e | Inr this \<Rightarrow> f this)"

text \<open>
  From \<^verbatim>\<open>super(options)\<close> to the build task: package, script runner, node version,
  the PATH of all tasks and the four tasks.
\<close>

definition ctor_tasks :: "Collaborators \<Rightarrow> NodeProjectOptions \<Rightarrow> Project \<Rightarrow> NodeProject" where
  \<open>ctor_tasks cs options base =
     (let this0 = \<lparr>parent = base_parent base, github = base_github base,
                   tasks = base_tasks base, tasks_env = base_tasks_env base,
                   gitignore = base_gitignore base, components = base_components base,
                   package = newNodePackage cs, npmignore = None,
                   compileTask = [], testTask = [], testCompileTask = [], buildTask = [],
                   autoMerge = None, buildWorkflow = None, buildWorkflowJobId = None,
                   release = None, nodeVersion = None, antitamper = False,
                   npmDistTag = [], npmRegistry = [], runScriptCommand = [],
                   jest = None\<rparr>;
          this1 = this0\<lparr>runScriptCommand :=
                    (case packageManager (package this0) of
                       NPM \<Rightarrow> ''npm run''
                     | YARN \<Rightarrow> ''yarn run''
                     | PNPM \<Rightarrow> ''pnpm run'')\<rparr>;
          this2 = this1\<lparr>nodeVersion :=
                    (case opt_workflowNodeVersion options of
                       Some v \<Rightarrow> Some v
                     | None \<Rightarrow> minNodeVersion (package this1))\<rparr>;
          this3 = this2\<lparr>tasks_env := tasks_env this2 @
                    [(''PATH'', ''$(npx -c "node -e '' @ [CHR 0x5C] @
                                ''"console.log(process.env.PATH)'' @ [CHR 0x5C] @
                                ''"")'')]\<rparr>;
          this4 = (addTask ''compile'' ''Only compile'' BUILD this3)
                    \<lparr>compileTask := ''compile''\<rparr>;
          this5 = (addTask ''test:compile'' ''compiles the test code'' TEST this4)
                    \<lparr>testCompileTask := ''test:compile''\<rparr>;
          this6 = (addTask ''test'' ''Run tests'' TEST this5)\<lparr>testTask := ''test''\<rparr>;
          this7 = task_push (testTask this6) (Spawn (testCompileTask this6)) this6;
          this8 = (addTask ''build'' ''Full release build (test+compile)'' BUILD this7)
                    \<lparr>buildTask := ''build''\<rparr>
      in if nullish (opt_projenDuringBuild options) True \<and> \<not> parent this8
         then task_push (buildTask this8) (Exec (projenCommand (package this8))) this8
         else this8)\<close>

text \<open>License, dist tag and registry, the ignore files and the caller's ignore patterns.\<close>

definition ctor_files :: "NodeProjectOptions \<Rightarrow> NodeProject \<Rightarrow> NodeProject" where
  "ctor_files options this =
     (let this1 = addLicense options this;
          this2 = this1\<lparr>npmDistTag := pkg_npmDistTag (package this1),
                        npmRegistry := pkg_npmRegistry (package this1)\<rparr>;
          this3 = (if nullish (opt_npmignoreEnabled options) True
                   then this2\<lparr>npmignore := Some []\<rparr> else this2);
          this4 = addDefaultGitIgnore this3
      in case opt_gitignore options of
           None \<Rightarrow> this4
         | Some ps \<Rightarrow> gitignore_exclude ps this4)"

definition ctor_npmignore :: "NodeProjectOptions \<Rightarrow> NodeProject \<Rightarrow> assembly" where
  "ctor_npmignore options this =
     (case opt_npmignore options of
        None \<Rightarrow> Inr this
      | Some ps \<Rightarrow>
          if ps = [] then Inr this
          else if npmignore this = None then Inl (NpmignoreNotDefined, this)
          else Inr (npmignore_exclude ps this))"

text \<open>The scripts, the ignore entries of the generator's own files, its dev dependency.\<close>

definition ctor_projen :: "Collaborators \<Rightarrow> NodeProjectOptions \<Rightarrow> NodeProject \<Rightarrow> NodeProject" where
  "ctor_projen cs options this =
     (let this1 = setScript PROJEN_SCRIPT (projenCommand (package this)) this;
          this2 = setScript ''start'' (projenCommand (package this1) @ '' start'') this1;
          this3 = npmignore_exclude [''/'' @ PROJEN_RC cs] this2;
          this4 = npmignore_exclude [''/'' @ PROJEN_DIR cs] this3;
          this5 = gitignore_include (''/'' @ PROJEN_RC cs) this4;
          projen = nullish (opt_projenDevDependency options) True
      in if projen
         then (let projenVersion =
                     nullish (opt_projenVersion options) (''^'' @ PROJEN_VERSION cs)
               in addDevDeps (''projen@'' @ projenVersion) this5)
         else this5)"

definition ctor_defaultReleaseBranch :: "NodeProjectOptions \<Rightarrow> NodeProject \<Rightarrow> assembly" where
  "ctor_defaultReleaseBranch options this =
     (if \<not> truthy_str (opt_defaultReleaseBranch options)
      then Inl (DefaultReleaseBranchRequired, this)
      else Inr this)"

text \<open>
  The sitewide anti-tamper flag and the test framework. What \<^verbatim>\<open>new Jest\<close> registers
  besides itself (tasks of its own, for one) is outside the examined source: the model
  leaves the task registry as it is, and the properties of the assembly say of the
  registry only which tasks it holds at least.
\<close>

definition ctor_jest :: "Collaborators \<Rightarrow> NodeProjectOptions \<Rightarrow> NodeProject \<Rightarrow> NodeProject" where
  "ctor_jest cs options this =
     (let this1 = this\<lparr>antitamper :=
                    buildEnabled options this \<and> nullish (opt_antitamper options) True\<rparr>
      in if nullish (opt_jest options) True
         then this1\<lparr>components := components this1 @ [JestC (opt_jestOptions options)],
                    jest := Some (newJest cs (opt_jestOptions options))\<rparr>
         else this1)"

text \<open>The build workflow, when it is enabled.\<close>

definition ctor_build :: "Collaborators \<Rightarrow> NodeProjectOptions \<Rightarrow> NodeProject \<Rightarrow> assembly" where
  "ctor_build cs options this =
     (if buildEnabled options this
      then (case createBuildWorkflow ''Build'' (buildWorkflowOptions options) this of
              Inl e \<Rightarrow> Inl e
            | Inr (workflow, this3) \<Rightarrow>
                Inr (this3\<lparr>buildWorkflow := Some workflow,
                           buildWorkflowJobId := Some ''build''\<rparr>))
      else Inr this)"

text \<open>
  The release workflow, or the check that no release option is set without it. The
  release collaborator is outside the examined source: of the options it is given, the
  build task and the setup steps are recorded.
\<close>

definition ctor_release :: "Collaborators \<Rightarrow> NodeProjectOptions \<Rightarrow> NodeProject \<Rightarrow> assembly" where
  "ctor_release cs options this =
     (if releaseEnabled options this
      then (let this1 = addDevDeps (STANDARD_VERSION cs) this;
                rel = \<lparr>rel_task = buildTask this1,
                       rel_releaseWorkflowSetupSteps =
                         installWorkflowSteps this1 @
                         nullish (opt_releaseWorkflowSetupSteps options) [],
                       rel_publishToNpm = []\<rparr>;
                this2 = this1\<lparr>components := components this1 @ [ReleaseC],
                              release := Some rel\<rparr>
            in if nullish (opt_releaseToNpm options) False
               then Inr (this2\<lparr>release := Some (rel\<lparr>rel_publishToNpm :=
                           [\<lparr>distTag = pkg_npmDistTag (package this2),
                             registry = pkg_npmRegistry (package this2),
                             npmTokenSecretName = npmTokenSecret (package this2)\<rparr>]\<rparr>)\<rparr>)
               else Inr this2)
      else if truthy_bool (opt_releaseToNpm options)
        then Inl (ReleaseToNpmNotSupported, this)
      else if opt_releaseBranches options \<noteq> None
        then Inl (ReleaseBranchesNotSupported, this)
      else if truthy_bool (opt_releaseEveryCommit options)
        then Inl (ReleaseEveryCommitNotSupported, this)
      else if truthy_str (opt_releaseSchedule options)
        then Inl (ReleaseScheduleNotSupported, this)
      else Inr this)"

definition ctor_autoMerge :: "Collaborators \<Rightarrow> NodeProjectOptions \<Rightarrow> NodeProject \<Rightarrow> NodeProject" where
  "ctor_autoMerge cs options this =
     (if (case github this of None \<Rightarrow> False | Some gh \<Rightarrow> mergify gh)
      then npmignore_exclude [''/.mergify.yml'']
             (this\<lparr>components := components this @ [AutoMergeC],
                   autoMerge := Some (newAutoMerge cs (buildWorkflowJobId this)
                                        (opt_mergifyAutoMergeLabel options))\<rparr>)
      else this)"

text \<open>The conflict check of the two upgrade options, and the binding of the mechanism.\<close>

definition ctor_depsUpgrade :: "NodeProjectOptions \<Rightarrow> NodeProject \<Rightarrow> assembly" where
  "ctor_depsUpgrade options this =
     (if opt_dependabot options \<noteq> None \<and> opt_depsUpgrade options \<noteq> None
      then Inl (DependabotWithDepsUpgrade, this)
      else Inr (bind (dependenciesUpgrade options) this))"

definition ctor_projenUpgrade :: "NodeProjectOptions \<Rightarrow> NodeProject \<Rightarrow> NodeProject" where
  "ctor_projenUpgrade options this =
     (if ignoresProjen (dependenciesUpgrade options) \<and> packageName (package this) \<noteq> ''projen''
      then this\<lparr>components := components this @
                   [UpgradeDependenciesC (projenUpgradeOptions options this)]\<rparr>
      else this)"

text \<open>
  The pull-request template and the generator's configuration file. The source spreads
  \<^verbatim>\<open>options.pullRequestTemplateContents ?? []\<close> into the argument list; the contents are
  a string, so each character becomes one argument.
\<close>

definition ctor_tail :: "NodeProjectOptions \<Rightarrow> NodeProject \<Rightarrow> NodeProject" where
  "ctor_tail options this =
     (let this1 =
            (if nullish (opt_pullRequestTemplate options) True
             then (case github this of
                     None \<Rightarrow> this
                   | Some gh \<Rightarrow>
                       this\<lparr>github := Some (gh\<lparr>pullRequestTemplates :=
                               pullRequestTemplates gh @
                               [map (\<lambda>c. [c])
                                  (nullish (opt_pullRequestTemplateContents options) [])]\<rparr>)\<rparr>)
             else this);
          projenrcJs = nullish (opt_projenrcJs options) True
      in if projenrcJs
         then this1\<lparr>components := components this1 @
                      [ProjenrcC (opt_projenrcJsOptions options)]\<rparr>
         else this1)"

definition NodeProject_constructor ::
  "Collaborators \<Rightarrow> NodeProjectOptions \<Rightarrow> Project \<Rightarrow> assembly" where
  "NodeProject_constructor cs options base =
     and_then (ctor_npmignore options (ctor_files options (ctor_tasks cs options base)))
       (\<lambda>this. and_then (ctor_defaultReleaseBranch options (ctor_projen cs options this))
       (\<lambda>this. and_then (ctor_build cs options (ctor_jest cs options this))
       (\<lambda>this. and_then (ctor_release cs options this)
       (\<lambda>this. and_then (ctor_depsUpgrade options (ctor_autoMerge cs options this))
       (\<lambda>this. Inr (ctor_tail options (ctor_projenUpgrade options this)))))))"

section \<open>Concrete inputs\<close>

text \<open>
  A root project with a CI-integration collaborator and merge automation, a package named
  \<^verbatim>\<open>my-app\<close> managed by yarn, and the default options with the release branch
  \<^verbatim>\<open>main\<close>. They serve to run the model on concrete inputs.
\<close>

definition ex_package :: NodePackage where
  "ex_package =
     \<lparr>packageManager = YARN, minNodeVersion = Some ''14.0.0'',
      projenCommand = ''npx projen'', installCommand = ''yarn install --frozen-lockfile'',
      npmTaskExecution = PROJEN, license = Some ''Apache-2.0'',
      pkg_npmDistTag = ''latest'', pkg_npmRegistry = ''registry.npmjs.org'',
      npmTokenSecret = None, packageName = ''my-app'', scripts = [], devDeps = []\<rparr>"

definition ex_collaborators :: Collaborators where
  "ex_collaborators =
     \<lparr>newNodePackage = ex_package,
      newJest = (\<lambda>jestOptions. \<lparr>config = Some \<lparr>coverageDirectory = ''coverage''\<rparr>\<rparr>),
      newAutoMerge = (\<lambda>buildJob label.
         \<lparr>am_buildJob = buildJob, autoMergeLabel = nullish label ''auto-merge''\<rparr>),
      PROJEN_RC = ''.projenrc.js'', PROJEN_DIR = ''.projen'', PROJEN_VERSION = ''0.17.0'',
      STANDARD_VERSION = ''standard-version@^9''\<rparr>"

definition ex_github :: GitHub where
  "ex_github = \<lparr>workflows = [], mergify = True, dependabots = [], pullRequestTemplates = []\<rparr>"

definition ex_base :: Project where
  "ex_base =
     \<lparr>base_parent = False, base_github = Some ex_github, base_tasks = [],
      base_tasks_env = [], base_gitignore = [], base_components = []\<rparr>"

definition ex_options :: NodeProjectOptions where
  "ex_options =
     \<lparr>opt_copyrightOwner = None, opt_authorName = None, opt_copyrightPeriod = None,
      opt_projenVersion = None, opt_projenDevDependency = None, opt_buildWorkflow = None,
      opt_mutableBuild = None, opt_antitamper = None, opt_codeCov = None,
      opt_codeCovTokenSecret = None, opt_releaseWorkflow = None, opt_releaseToNpm = None,
      opt_releaseBranches = None, opt_releaseEveryCommit = None, opt_releaseSchedule = None,
      opt_releaseWorkflowSetupSteps = None, opt_defaultReleaseBranch = Some ''main'',
      opt_workflowNodeVersion = None, opt_workflowContainerImage = None,
      opt_dependabot = None, opt_depsUpgrade = None, opt_mergifyAutoMergeLabel = None,
      opt_projenUpgradeSecret = None, opt_projenUpgradeAutoMerge = None,
      opt_projenUpgradeSchedule = None, opt_projenDuringBuild = None,
      opt_npmignoreEnabled = None, opt_npmignore = None, opt_pullRequestTemplate = None,
      opt_pullRequestTemplateContents = None, opt_gitignore = None, opt_jest = None,
      opt_jestOptions = None, opt_projenrcJs = None, opt_projenrcJsOptions = None\<rparr>"

text \<open>The project as the constructor has it when it calls the builder.\<close>

definition ex_this :: NodeProject where
  "ex_this =
     \<lparr>parent = False, github = Some ex_github, tasks = [], tasks_env = [], gitignore = [],
      components = [], package = ex_package, npmignore = None,
      compileTask = ''compile'', testTask = ''test'', testCompileTask = ''test:compile'',
      buildTask = ''build'', autoMerge = None, buildWorkflow = None,
      buildWorkflowJobId = None, release = None, nodeVersion = Some ''14.0.0'',
      antitamper = True, npmDistTag = ''latest'', npmRegistry = ''registry.npmjs.org'',
      runScriptCommand = ''yarn run'',
      jest = Some \<lparr>config = Some \<lparr>coverageDirectory = ''coverage''\<rparr>\<rparr>\<rparr>"

text \<open>Builder options with every optional field left out.\<close>

definition ex_build_options :: NodeBuildWorkflowOptions where
  "ex_build_options =
     \<lparr>jobId = ''build'', image = None, condition = None, trigger = None, codeCov = None,
      codeCovTokenSecret = None, preBuildSteps = None, preCheckoutSteps = None,
      postSteps = None, checkoutWith = None, antitamperDisabled = None, env = None,
      permissions = [''contents'' \<mapsto> READ]\<rparr>"


text \<open>A trigger filter that names the issue-comment category with an empty filter object.\<close>

definition ex_comment_trigger_options :: NodeBuildWorkflowOptions where
  "ex_comment_trigger_options =
     ex_build_options\<lparr>trigger := Some [''issue_comment'' \<mapsto> JObj []]\<rparr>"

text \<open>Coverage reporting requested, with and without a secret name.\<close>

definition ex_coverage_options :: NodeBuildWorkflowOptions where
  "ex_coverage_options = ex_build_options\<lparr>codeCov := Some True\<rparr>"

definition ex_coverage_secret_options :: NodeBuildWorkflowOptions where
  "ex_coverage_secret_options =
     ex_build_options\<lparr>codeCovTokenSecret := Some ''CODECOV_TOKEN''\<rparr>"

text \<open>A caller environment that defines \<^verbatim>\<open>CI\<close> itself.\<close>

definition ex_env_options :: NodeBuildWorkflowOptions where
  "ex_env_options = ex_build_options\<lparr>env := Some [''CI'' \<mapsto> ''false'']\<rparr>"

section \<open>Observations on an assembled project\<close>

text \<open>The upgrade pipelines registered with a project, in registration order.\<close>

fun upgradePipelines :: "Component list \<Rightarrow> UpgradeDependenciesOptions list" where
  "upgradePipelines [] = []"
| "upgradePipelines (UpgradeDependenciesC u # cs) = u # upgradePipelines cs"
| "upgradePipelines (c # cs) = upgradePipelines cs"

text \<open>Whether the project has a CI-integration collaborator with merge automation.\<close>

definition hasMergify :: "GitHub option \<Rightarrow> bool" where
  "hasMergify g = (case g of None \<Rightarrow> False | Some gh \<Rightarrow> mergify gh)"

text \<open>Options without the required release branch, and options in conflict.\<close>

definition ex_options_no_branch :: NodeProjectOptions where
  "ex_options_no_branch = ex_options\<lparr>opt_defaultReleaseBranch := None\<rparr>"

definition ex_options_no_release :: NodeProjectOptions where
  "ex_options_no_release =
     ex_options\<lparr>opt_releaseWorkflow := Some False, opt_releaseToNpm := Some True\<rparr>"

definition ex_options_both_upgrades :: NodeProjectOptions where
  "ex_options_both_upgrades =
     ex_options\<lparr>opt_dependabot := Some True, opt_depsUpgrade := Some mechanism_NONE\<rparr>"

section \<open>Properties of the workflow job builder\<close>

subsection \<open>What the builder returns\<close>

text \<open>
  When the project has a CI-integration collaborator and the trigger guard does not fire,
  the builder returns: it registers one workflow, with the caller's triggers and the
  manual dispatch, holding the single job built from the options.
\<close>

lemma createBuildWorkflow_returns:
  assumes "github this = Some gh" and "\<not> issue_comment_trigger options"
  shows "createBuildWorkflow nm options this =
     Inr (length (workflows gh),
          this\<lparr>github := Some (gh\<lparr>workflows := workflows gh @
             [\<lparr>wf_name = nm,
               wf_events = nullish (trigger options) Map.empty ++ [''workflowDispatch'' \<mapsto> JObj []],
               wf_jobs = [(jobId options, buildJob options this)]\<rparr>]\<rparr>)\<rparr>)"
  using assms
  by (simp add: createBuildWorkflow_def addWorkflow_def workflow_on_def workflow_addJobs_def
      nullish_def Let_def split: option.splits)

lemma job_steps_buildJob: "job_steps (buildJob options this) = buildJobSteps options this"
  by (simp add: buildJob_def Let_def)

lemma job_env_buildJob:
  "job_env (buildJob options this) = [''CI'' \<mapsto> ''true''] ++ nullish (env options) Map.empty"
  by (simp add: buildJob_def Let_def)

lemma emitted_job:
  assumes "github this = Some gh" and "\<not> issue_comment_trigger options"
  shows "\<exists>this' gh'.
     createBuildWorkflow nm options this = Inr (length (workflows gh), this') \<and>
     github this' = Some gh' \<and>
     length (workflows gh') = Suc (length (workflows gh)) \<and>
     wf_jobs (workflows gh' ! length (workflows gh)) = [(jobId options, buildJob options this)]"
  using createBuildWorkflow_returns [OF assms, of nm] by simp

subsection \<open>The coverage upload steps, case by case\<close>

lemma codeCovSteps_token:
  "jest this = Some j \<Longrightarrow> config j = Some c \<Longrightarrow> truthy_str (codeCovTokenSecret options) \<Longrightarrow>
   codeCovSteps options this =
     [(mk_step ''Upload coverage to Codecov'')
        \<lparr>step_uses := Some ''codecov/codecov-action@v1'',
         step_with := Some [(''token'', JStr (''${{ secrets.'' @
                               the (codeCovTokenSecret options) @ '' }}'')),
                            (''directory'', JStr (coverageDirectory c))]\<rparr>]"
  by (simp add: codeCovSteps_def)

lemma codeCovSteps_directory:
  "jest this = Some j \<Longrightarrow> config j = Some c \<Longrightarrow> \<not> truthy_str (codeCovTokenSecret options) \<Longrightarrow>
   truthy_bool (codeCov options) \<Longrightarrow>
   codeCovSteps options this =
     [(mk_step ''Upload coverage to Codecov'')
        \<lparr>step_uses := Some ''codecov/codecov-action@v1'',
         step_with := Some [(''directory'', JStr (coverageDirectory c))]\<rparr>]"
  by (simp add: codeCovSteps_def)

lemma codeCovSteps_no_jest: "jest this = None \<Longrightarrow> codeCovSteps options this = []"
  by (simp add: codeCovSteps_def)

lemma codeCovSteps_no_config:
  "jest this = Some j \<Longrightarrow> config j = None \<Longrightarrow> codeCovSteps options this = []"
  by (simp add: codeCovSteps_def)

lemma codeCovSteps_off:
  "\<not> truthy_str (codeCovTokenSecret options) \<Longrightarrow> \<not> truthy_bool (codeCov options) \<Longrightarrow>
   codeCovSteps options this = []"
  by (simp add: codeCovSteps_def)

lemma codeCovSteps_shape:
  "codeCovSteps options this = [] \<or>
   (\<exists>w. codeCovSteps options this =
      [(mk_step ''Upload coverage to Codecov'')
         \<lparr>step_uses := Some ''codecov/codecov-action@v1'', step_with := Some w\<rparr>])"
proof (cases "jest this")
  case None
  then show ?thesis by (simp add: codeCovSteps_no_jest)
next
  case (Some j)
  show ?thesis
  proof (cases "config j")
    case None
    with Some show ?thesis by (simp add: codeCovSteps_no_config)
  next
    case c: (Some c)
    show ?thesis
    proof (cases "truthy_str (codeCovTokenSecret options)")
      case True
      from codeCovSteps_token [OF Some c True] show ?thesis by blast
    next
      case False
      show ?thesis
      proof (cases "truthy_bool (codeCov options)")
        case True
        from codeCovSteps_directory [OF Some c False True] show ?thesis by blast
      next
        case False
        with \<open>\<not> truthy_str (codeCovTokenSecret options)\<close> show ?thesis
          by (simp add: codeCovSteps_off)
      qed
    qed
  qed
qed

lemma codeCovSteps_uses:
  "set (map step_uses (codeCovSteps options this)) \<subseteq> {Some ''codecov/codecov-action@v1''}"
  using codeCovSteps_shape [of options this] by (auto simp add: mk_step_def)

lemma codeCovSteps_length: "length (codeCovSteps options this) \<le> 1"
  using codeCovSteps_shape [of options this] by auto

lemma codeCovSteps_present:
  "codeCovSteps options this \<noteq> [] \<longleftrightarrow>
     (codeCov options = Some True \<or> (\<exists>s. codeCovTokenSecret options = Some s \<and> s \<noteq> [])) \<and>
     (\<exists>j c. jest this = Some j \<and> config j = Some c)"
proof (cases "jest this")
  case None
  then show ?thesis by (simp add: codeCovSteps_no_jest)
next
  case (Some j)
  show ?thesis
  proof (cases "config j")
    case None
    with Some show ?thesis by (simp add: codeCovSteps_no_config)
  next
    case c: (Some c)
    have ts: "truthy_str (codeCovTokenSecret options) \<longleftrightarrow>
                (\<exists>s. codeCovTokenSecret options = Some s \<and> s \<noteq> [])"
      by (cases "codeCovTokenSecret options") (simp_all add: truthy_str_def)
    have tb: "truthy_bool (codeCov options) \<longleftrightarrow> codeCov options = Some True"
      by (simp add: truthy_bool_def)
    show ?thesis
    proof (cases "truthy_str (codeCovTokenSecret options)")
      case True
      from codeCovSteps_token [OF Some c True] True ts Some c show ?thesis by simp
    next
      case False
      show ?thesis
      proof (cases "truthy_bool (codeCov options)")
        case True
        from codeCovSteps_directory [OF Some c False True] True tb Some c show ?thesis by simp
      next
        case nb: False
        from codeCovSteps_off [OF False nb] False nb ts tb show ?thesis by simp
      qed
    qed
  qed
qed

lemma installWorkflowSteps_names:
  "set (map step_name (installWorkflowSteps this))
     \<subseteq> {''Setup Node.js'', ''Install dependencies''}"
  by (cases "truthy_str (nodeVersion this)")
     (simp_all add: installWorkflowSteps_def mk_step_def)

lemma antitamperSteps_names:
  "set (map step_name (antitamperSteps options this)) \<subseteq> {''Anti-tamper check''}"
  "length (antitamperSteps options this) \<le> 1"
  by (simp_all add: antitamperSteps_def mk_step_def)

subsection \<open>Evaluations on the concrete inputs\<close>

lemma ex_github_this: "github ex_this = Some ex_github"
  by (simp add: ex_this_def)

lemma ex_no_issue_comment: "\<not> issue_comment_trigger ex_build_options"
  by (simp add: issue_comment_trigger_def ex_build_options_def)

lemma ex_trigger_free:
  "\<not> issue_comment_trigger ex_coverage_options"
  "\<not> issue_comment_trigger ex_coverage_secret_options"
  "\<not> issue_comment_trigger ex_env_options"
  by (simp_all add: issue_comment_trigger_def ex_coverage_options_def
      ex_coverage_secret_options_def ex_env_options_def ex_build_options_def)


subsection \<open>Order of the step categories\<close>

text \<open>
  Claim C1. Whenever the builder accepts the options (the project has a CI-integration
  collaborator and the trigger guard does not fire), it returns, and the step sequence of
  the job it registers is the concatenation, in this order, of: the pre-checkout steps,
  the checkout step, the install steps, the anti-tamper steps (none or one), the
  git-identity step, the pre-build steps, the build step, the coverage upload (none or
  one), the post steps, and the same anti-tamper steps again.
\<close>

theorem build_job_step_order:
  assumes "github this = Some gh" and "\<not> issue_comment_trigger options"
  shows "\<exists>this' gh' job antitamper_part coverage_part.
     createBuildWorkflow nm options this = Inr (length (workflows gh), this') \<and>
     github this' = Some gh' \<and>
     wf_jobs (workflows gh' ! length (workflows gh)) = [(jobId options, job)] \<and>
     job_steps job =
       nullish (preCheckoutSteps options) []
       @ [checkoutStep options]
       @ installWorkflowSteps this
       @ antitamper_part
       @ [gitIdentityStep]
       @ nullish (preBuildSteps options) []
       @ [buildStep this]
       @ coverage_part
       @ nullish (postSteps options) []
       @ antitamper_part \<and>
     step_uses (checkoutStep options) = Some ''actions/checkout@v2'' \<and>
     set (map step_name (installWorkflowSteps this))
       \<subseteq> {''Setup Node.js'', ''Install dependencies''} \<and>
     set (map step_name antitamper_part) \<subseteq> {''Anti-tamper check''} \<and>
     length antitamper_part \<le> 1 \<and>
     step_name gitIdentityStep = ''Set git identity'' \<and>
     step_run (buildStep this) = Some (runTaskCommand this (buildTask this)) \<and>
     set (map step_uses coverage_part) \<subseteq> {Some ''codecov/codecov-action@v1''} \<and>
     length coverage_part \<le> 1"
proof -
  obtain this' gh' where r:
    "createBuildWorkflow nm options this = Inr (length (workflows gh), this')"
    "github this' = Some gh'"
    "wf_jobs (workflows gh' ! length (workflows gh)) = [(jobId options, buildJob options this)]"
    using emitted_job [OF assms, of nm] by blast
  have a: "set (map step_name (antitamperSteps options this)) \<subseteq> {''Anti-tamper check''}"
    "length (antitamperSteps options this) \<le> 1"
    by (simp_all add: antitamperSteps_def mk_step_def)
  have c: "set (map step_uses (codeCovSteps options this)) \<subseteq> {Some ''codecov/codecov-action@v1''}"
    "length (codeCovSteps options this) \<le> 1"
    by (rule codeCovSteps_uses, rule codeCovSteps_length)
  have i: "set (map step_name (installWorkflowSteps this))
       \<subseteq> {''Setup Node.js'', ''Install dependencies''}"
    by (cases "truthy_str (nodeVersion this)")
       (simp_all add: installWorkflowSteps_def mk_step_def)
  have s: "step_uses (checkoutStep options) = Some ''actions/checkout@v2''"
    "step_name gitIdentityStep = ''Set git identity''"
    "step_run (buildStep this) = Some (runTaskCommand this (buildTask this))"
    by (simp_all add: checkoutStep_def gitIdentityStep_def buildStep_def mk_step_def)
  have j: "job_steps (buildJob options this) =
       nullish (preCheckoutSteps options) []
       @ [checkoutStep options]
       @ installWorkflowSteps this
       @ antitamperSteps options this
       @ [gitIdentityStep]
       @ nullish (preBuildSteps options) []
       @ [buildStep this]
       @ codeCovSteps options this
       @ nullish (postSteps options) []
       @ antitamperSteps options this"
    by (simp add: job_steps_buildJob buildJobSteps_def)
  from r a c i s j show ?thesis by blast
qed

theorem build_job_step_order_witness:
  "github ex_this = Some ex_github \<and> \<not> issue_comment_trigger ex_build_options \<and>
   (\<exists>this' gh' job antitamper_part coverage_part.
     createBuildWorkflow ''Build'' ex_build_options ex_this =
       Inr (length (workflows ex_github), this') \<and>
     github this' = Some gh' \<and>
     wf_jobs (workflows gh' ! length (workflows ex_github)) =
       [(jobId ex_build_options, job)] \<and>
     job_steps job =
       nullish (preCheckoutSteps ex_build_options) []
       @ [checkoutStep ex_build_options]
       @ installWorkflowSteps ex_this
       @ antitamper_part
       @ [gitIdentityStep]
       @ nullish (preBuildSteps ex_build_options) []
       @ [buildStep ex_this]
       @ coverage_part
       @ nullish (postSteps ex_build_options) []
       @ antitamper_part \<and>
     step_uses (checkoutStep ex_build_options) = Some ''actions/checkout@v2'' \<and>
     set (map step_name (installWorkflowSteps ex_this))
       \<subseteq> {''Setup Node.js'', ''Install dependencies''} \<and>
     set (map step_name antitamper_part) \<subseteq> {''Anti-tamper check''} \<and>
     length antitamper_part \<le> 1 \<and>
     step_name gitIdentityStep = ''Set git identity'' \<and>
     step_run (buildStep ex_this) = Some (runTaskCommand ex_this (buildTask ex_this)) \<and>
     set (map step_uses coverage_part) \<subseteq> {Some ''codecov/codecov-action@v1''} \<and>
     length coverage_part \<le> 1)"
  using build_job_step_order [OF ex_github_this ex_no_issue_comment, of "''Build''"]
    ex_github_this ex_no_issue_comment
  by blast

subsection \<open>The anti-tamper steps\<close>

text \<open>
  Claim C2. The anti-tamper step list is empty exactly when the anti-tamper-disabled flag
  is set or the sitewide anti-tamper setting is off, and otherwise it is the single
  verification step; in the registered job the same list stands once right after the
  install steps and once at the very end, so the check appears on both sides or on none.
\<close>

theorem antitamper_steps_symmetric:
  assumes "github this = Some gh" and "\<not> issue_comment_trigger options"
  shows "(antitamperSteps options this = [] \<longleftrightarrow>
            antitamperDisabled options = Some True \<or> \<not> antitamper this) \<and>
         (antitamperSteps options this = [] \<or>
          antitamperSteps options this =
            [(mk_step ''Anti-tamper check'')
               \<lparr>step_run := Some ''git diff --ignore-space-at-eol --exit-code''\<rparr>]) \<and>
         (\<exists>this' gh' job.
            createBuildWorkflow nm options this = Inr (length (workflows gh), this') \<and>
            github this' = Some gh' \<and>
            wf_jobs (workflows gh' ! length (workflows gh)) = [(jobId options, job)] \<and>
            job_steps job =
              (nullish (preCheckoutSteps options) [] @ [checkoutStep options]
                 @ installWorkflowSteps this)
              @ antitamperSteps options this
              @ ([gitIdentityStep] @ nullish (preBuildSteps options) [] @ [buildStep this]
                 @ codeCovSteps options this @ nullish (postSteps options) [])
              @ antitamperSteps options this)"
proof -
  have a: "antitamperSteps options this = [] \<longleftrightarrow>
            antitamperDisabled options = Some True \<or> \<not> antitamper this"
    by (simp add: antitamperSteps_def truthy_bool_def)
  have b: "antitamperSteps options this = [] \<or>
          antitamperSteps options this =
            [(mk_step ''Anti-tamper check'')
               \<lparr>step_run := Some ''git diff --ignore-space-at-eol --exit-code''\<rparr>]"
    by (simp add: antitamperSteps_def)
  obtain this' gh' where r:
    "createBuildWorkflow nm options this = Inr (length (workflows gh), this')"
    "github this' = Some gh'"
    "wf_jobs (workflows gh' ! length (workflows gh)) = [(jobId options, buildJob options this)]"
    using emitted_job [OF assms, of nm] by blast
  have j: "job_steps (buildJob options this) =
              (nullish (preCheckoutSteps options) [] @ [checkoutStep options]
                 @ installWorkflowSteps this)
              @ antitamperSteps options this
              @ ([gitIdentityStep] @ nullish (preBuildSteps options) [] @ [buildStep this]
                 @ codeCovSteps options this @ nullish (postSteps options) [])
              @ antitamperSteps options this"
    by (simp add: job_steps_buildJob buildJobSteps_def)
  from a b r j show ?thesis by blast
qed

theorem antitamper_steps_symmetric_witness:
  "github ex_this = Some ex_github \<and> \<not> issue_comment_trigger ex_build_options \<and>
   antitamperSteps ex_build_options ex_this =
     [(mk_step ''Anti-tamper check'')
        \<lparr>step_run := Some ''git diff --ignore-space-at-eol --exit-code''\<rparr>] \<and>
   (\<exists>this' gh' job.
      createBuildWorkflow ''Build'' ex_build_options ex_this
        = Inr (length (workflows ex_github), this') \<and>
      github this' = Some gh' \<and>
      wf_jobs (workflows gh' ! length (workflows ex_github))
        = [(jobId ex_build_options, job)] \<and>
      job_steps job =
        (nullish (preCheckoutSteps ex_build_options) [] @ [checkoutStep ex_build_options]
           @ installWorkflowSteps ex_this)
        @ antitamperSteps ex_build_options ex_this
        @ ([gitIdentityStep] @ nullish (preBuildSteps ex_build_options) []
           @ [buildStep ex_this] @ codeCovSteps ex_build_options ex_this
           @ nullish (postSteps ex_build_options) [])
        @ antitamperSteps ex_build_options ex_this)"
proof -
  have on: "antitamperSteps ex_build_options ex_this =
     [(mk_step ''Anti-tamper check'')
        \<lparr>step_run := Some ''git diff --ignore-space-at-eol --exit-code''\<rparr>]"
    by (simp add: antitamperSteps_def ex_build_options_def ex_this_def truthy_bool_def)
  from antitamper_steps_symmetric [OF ex_github_this ex_no_issue_comment, of "''Build''"]
    ex_github_this ex_no_issue_comment on
  show ?thesis by blast
qed

subsection \<open>The coverage upload\<close>

text \<open>
  Claim C6. A coverage-upload step stands in the registered job, between the build step
  and the post steps, if and only if the coverage flag is set or a secret name (a
  non-empty string) is supplied, and the test-configuration collaborator reports an active
  configuration. With a secret name the step carries a token reference and the coverage
  directory, otherwise only the directory.
\<close>

theorem coverage_upload_step:
  assumes "github this = Some gh" and "\<not> issue_comment_trigger options"
  shows "\<exists>this' gh' job coverage_part.
     createBuildWorkflow nm options this = Inr (length (workflows gh), this') \<and>
     github this' = Some gh' \<and>
     wf_jobs (workflows gh' ! length (workflows gh)) = [(jobId options, job)] \<and>
     job_steps job =
       (nullish (preCheckoutSteps options) [] @ [checkoutStep options]
          @ installWorkflowSteps this @ antitamperSteps options this @ [gitIdentityStep]
          @ nullish (preBuildSteps options) [] @ [buildStep this])
       @ coverage_part
       @ (nullish (postSteps options) [] @ antitamperSteps options this) \<and>
     (coverage_part \<noteq> [] \<longleftrightarrow>
        (codeCov options = Some True \<or>
         (\<exists>s. codeCovTokenSecret options = Some s \<and> s \<noteq> [])) \<and>
        (\<exists>j c. jest this = Some j \<and> config j = Some c)) \<and>
     (\<forall>j c s. jest this = Some j \<and> config j = Some c \<and>
              codeCovTokenSecret options = Some s \<and> s \<noteq> [] \<longrightarrow>
        coverage_part =
          [(mk_step ''Upload coverage to Codecov'')
             \<lparr>step_uses := Some ''codecov/codecov-action@v1'',
              step_with := Some [(''token'', JStr (''${{ secrets.'' @ s @ '' }}'')),
                                 (''directory'', JStr (coverageDirectory c))]\<rparr>]) \<and>
     (\<forall>j c. jest this = Some j \<and> config j = Some c \<and> codeCov options = Some True \<and>
            \<not> (\<exists>s. codeCovTokenSecret options = Some s \<and> s \<noteq> []) \<longrightarrow>
        coverage_part =
          [(mk_step ''Upload coverage to Codecov'')
             \<lparr>step_uses := Some ''codecov/codecov-action@v1'',
              step_with := Some [(''directory'', JStr (coverageDirectory c))]\<rparr>])"
proof -
  obtain this' gh' where r:
    "createBuildWorkflow nm options this = Inr (length (workflows gh), this')"
    "github this' = Some gh'"
    "wf_jobs (workflows gh' ! length (workflows gh)) = [(jobId options, buildJob options this)]"
    using emitted_job [OF assms, of nm] by blast
  have j: "job_steps (buildJob options this) =
       (nullish (preCheckoutSteps options) [] @ [checkoutStep options]
          @ installWorkflowSteps this @ antitamperSteps options this @ [gitIdentityStep]
          @ nullish (preBuildSteps options) [] @ [buildStep this])
       @ codeCovSteps options this
       @ (nullish (postSteps options) [] @ antitamperSteps options this)"
    by (simp add: job_steps_buildJob buildJobSteps_def)
  have p: "codeCovSteps options this \<noteq> [] \<longleftrightarrow>
        (codeCov options = Some True \<or>
         (\<exists>s. codeCovTokenSecret options = Some s \<and> s \<noteq> [])) \<and>
        (\<exists>j c. jest this = Some j \<and> config j = Some c)"
    by (rule codeCovSteps_present)
  have t: "\<forall>j c s. jest this = Some j \<and> config j = Some c \<and>
              codeCovTokenSecret options = Some s \<and> s \<noteq> [] \<longrightarrow>
        codeCovSteps options this =
          [(mk_step ''Upload coverage to Codecov'')
             \<lparr>step_uses := Some ''codecov/codecov-action@v1'',
              step_with := Some [(''token'', JStr (''${{ secrets.'' @ s @ '' }}'')),
                                 (''directory'', JStr (coverageDirectory c))]\<rparr>]"
    using codeCovSteps_token [of this _ _ options] by (auto simp add: truthy_str_def)
  have d: "\<forall>j c. jest this = Some j \<and> config j = Some c \<and> codeCov options = Some True \<and>
            \<not> (\<exists>s. codeCovTokenSecret options = Some s \<and> s \<noteq> []) \<longrightarrow>
        codeCovSteps options this =
          [(mk_step ''Upload coverage to Codecov'')
             \<lparr>step_uses := Some ''codecov/codecov-action@v1'',
              step_with := Some [(''directory'', JStr (coverageDirectory c))]\<rparr>]"
  proof (intro allI impI)
    fix j c
    assume h: "jest this = Some j \<and> config j = Some c \<and> codeCov options = Some True \<and>
            \<not> (\<exists>s. codeCovTokenSecret options = Some s \<and> s \<noteq> [])"
    have nt: "\<not> truthy_str (codeCovTokenSecret options)"
      using h by (cases "codeCovTokenSecret options") (simp_all add: truthy_str_def)
    have tb: "truthy_bool (codeCov options)" using h by (simp add: truthy_bool_def)
    from h have jc: "jest this = Some j" "config j = Some c" by simp_all
    from codeCovSteps_directory [OF jc nt tb]
    show "codeCovSteps options this =
          [(mk_step ''Upload coverage to Codecov'')
             \<lparr>step_uses := Some ''codecov/codecov-action@v1'',
              step_with := Some [(''directory'', JStr (coverageDirectory c))]\<rparr>]"
      .
  qed
  from r j p t d show ?thesis
    by (intro exI [of _ this'] exI [of _ gh'] exI [of _ "buildJob options this"]
        exI [of _ "codeCovSteps options this"] conjI)

qed

theorem coverage_upload_step_witness:
  "github ex_this = Some ex_github \<and> \<not> issue_comment_trigger ex_coverage_secret_options \<and>
   (\<exists>this' gh' job.
      createBuildWorkflow ''Build'' ex_coverage_secret_options ex_this
        = Inr (length (workflows ex_github), this') \<and>
      github this' = Some gh' \<and>
      wf_jobs (workflows gh' ! length (workflows ex_github))
        = [(jobId ex_coverage_secret_options, job)] \<and>
      job_steps job =
        (nullish (preCheckoutSteps ex_coverage_secret_options) []
           @ [checkoutStep ex_coverage_secret_options]
           @ installWorkflowSteps ex_this
           @ antitamperSteps ex_coverage_secret_options ex_this @ [gitIdentityStep]
           @ nullish (preBuildSteps ex_coverage_secret_options) [] @ [buildStep ex_this])
        @ [(mk_step ''Upload coverage to Codecov'')
             \<lparr>step_uses := Some ''codecov/codecov-action@v1'',
              step_with := Some [(''token'', JStr ''${{ secrets.CODECOV_TOKEN }}''),
                                 (''directory'', JStr ''coverage'')]\<rparr>]
        @ (nullish (postSteps ex_coverage_secret_options) []
           @ antitamperSteps ex_coverage_secret_options ex_this))"
proof -
  have j: "jest ex_this = Some \<lparr>config = Some \<lparr>coverageDirectory = ''coverage''\<rparr>\<rparr>"
    by (simp add: ex_this_def)
  have s: "codeCovTokenSecret ex_coverage_secret_options = Some ''CODECOV_TOKEN''"
    by (simp add: ex_coverage_secret_options_def ex_build_options_def)
  obtain this' gh' job coverage_part where r:
    "createBuildWorkflow ''Build'' ex_coverage_secret_options ex_this
        = Inr (length (workflows ex_github), this')"
    "github this' = Some gh'"
    "wf_jobs (workflows gh' ! length (workflows ex_github))
        = [(jobId ex_coverage_secret_options, job)]"
    "job_steps job =
        (nullish (preCheckoutSteps ex_coverage_secret_options) []
           @ [checkoutStep ex_coverage_secret_options]
           @ installWorkflowSteps ex_this
           @ antitamperSteps ex_coverage_secret_options ex_this @ [gitIdentityStep]
           @ nullish (preBuildSteps ex_coverage_secret_options) [] @ [buildStep ex_this])
        @ coverage_part
        @ (nullish (postSteps ex_coverage_secret_options) []
           @ antitamperSteps ex_coverage_secret_options ex_this)"
    and t: "\<forall>j c s. jest ex_this = Some j \<and> config j = Some c \<and>
              codeCovTokenSecret ex_coverage_secret_options = Some s \<and> s \<noteq> [] \<longrightarrow>
        coverage_part =
          [(mk_step ''Upload coverage to Codecov'')
             \<lparr>step_uses := Some ''codecov/codecov-action@v1'',
              step_with := Some [(''token'', JStr (''${{ secrets.'' @ s @ '' }}'')),
                                 (''directory'', JStr (coverageDirectory c))]\<rparr>]"
    using coverage_upload_step [OF ex_github_this ex_trigger_free(2), of "''Build''"]
    by blast
  from t j s have "coverage_part =
          [(mk_step ''Upload coverage to Codecov'')
             \<lparr>step_uses := Some ''codecov/codecov-action@v1'',
              step_with := Some [(''token'', JStr ''${{ secrets.CODECOV_TOKEN }}''),
                                 (''directory'', JStr ''coverage'')]\<rparr>]"
    by simp
  with r ex_github_this ex_trigger_free(2) show ?thesis by blast
qed

subsection \<open>The environment of the job\<close>

text \<open>
  Claim C10. The environment map of the registered job contains \<^verbatim>\<open>CI = 'true'\<close>
  whenever the caller's environment map is absent or does not define \<^verbatim>\<open>CI\<close>; every
  entry of the caller's map, \<^verbatim>\<open>CI\<close> included, is in the job's map with the caller's
  value.
\<close>

theorem build_job_env_CI:
  assumes "github this = Some gh" and "\<not> issue_comment_trigger options"
  shows "\<exists>this' gh' job.
     createBuildWorkflow nm options this = Inr (length (workflows gh), this') \<and>
     github this' = Some gh' \<and>
     wf_jobs (workflows gh' ! length (workflows gh)) = [(jobId options, job)] \<and>
     (env options = None \<longrightarrow> job_env job ''CI'' = Some ''true'') \<and>
     (\<forall>m. env options = Some m \<and> m ''CI'' = None \<longrightarrow> job_env job ''CI'' = Some ''true'') \<and>
     (\<forall>m k v. env options = Some m \<and> m k = Some v \<longrightarrow> job_env job k = Some v)"
proof -
  obtain this' gh' where r:
    "createBuildWorkflow nm options this = Inr (length (workflows gh), this')"
    "github this' = Some gh'"
    "wf_jobs (workflows gh' ! length (workflows gh)) = [(jobId options, buildJob options this)]"
    using emitted_job [OF assms, of nm] by blast
  have a: "env options = None \<longrightarrow> job_env (buildJob options this) ''CI'' = Some ''true''"
    by (simp add: job_env_buildJob nullish_def)
  have b: "\<forall>m. env options = Some m \<and> m ''CI'' = None \<longrightarrow>
             job_env (buildJob options this) ''CI'' = Some ''true''"
    by (simp add: job_env_buildJob nullish_def map_add_def)
  have c: "\<forall>m k v. env options = Some m \<and> m k = Some v \<longrightarrow>
             job_env (buildJob options this) k = Some v"
    by (simp add: job_env_buildJob nullish_def map_add_def)
  from r a b c show ?thesis
    by (intro exI [of _ this'] exI [of _ gh'] exI [of _ "buildJob options this"] conjI)
qed

theorem build_job_env_CI_witness:
  "github ex_this = Some ex_github \<and> \<not> issue_comment_trigger ex_build_options \<and>
   \<not> issue_comment_trigger ex_env_options \<and>
   env ex_build_options = None \<and>
   env ex_env_options = Some [''CI'' \<mapsto> ''false''] \<and>
   (\<exists>this' gh' job.
      createBuildWorkflow ''Build'' ex_build_options ex_this
        = Inr (length (workflows ex_github), this') \<and>
      github this' = Some gh' \<and>
      wf_jobs (workflows gh' ! length (workflows ex_github))
        = [(jobId ex_build_options, job)] \<and>
      job_env job ''CI'' = Some ''true'') \<and>
   (\<exists>this' gh' job.
      createBuildWorkflow ''Build'' ex_env_options ex_this
        = Inr (length (workflows ex_github), this') \<and>
      github this' = Some gh' \<and>
      wf_jobs (workflows gh' ! length (workflows ex_github))
        = [(jobId ex_env_options, job)] \<and>
      job_env job ''CI'' = Some ''false'')"
proof -
  have n: "env ex_build_options = None"
    by (simp add: ex_build_options_def)
  have e: "env ex_env_options = Some [''CI'' \<mapsto> ''false'']"
    by (simp add: ex_env_options_def ex_build_options_def)
  have v: "[''CI'' \<mapsto> ''false''] ''CI'' = Some ''false''"
    by simp
  from build_job_env_CI [OF ex_github_this ex_no_issue_comment, of "''Build''"] n
  have a: "\<exists>this' gh' job.
      createBuildWorkflow ''Build'' ex_build_options ex_this
        = Inr (length (workflows ex_github), this') \<and>
      github this' = Some gh' \<and>
      wf_jobs (workflows gh' ! length (workflows ex_github))
        = [(jobId ex_build_options, job)] \<and>
      job_env job ''CI'' = Some ''true''"
    by blast
  from build_job_env_CI [OF ex_github_this ex_trigger_free(3), of "''Build''"] e v
  have b: "\<exists>this' gh' job.
      createBuildWorkflow ''Build'' ex_env_options ex_this
        = Inr (length (workflows ex_github), this') \<and>
      github this' = Some gh' \<and>
      wf_jobs (workflows gh' ! length (workflows ex_github))
        = [(jobId ex_env_options, job)] \<and>
      job_env job ''CI'' = Some ''false''"
    by blast
  from ex_github_this ex_no_issue_comment ex_trigger_free(3) n e a b
  show ?thesis by blast
qed

subsection \<open>The rejected trigger\<close>

text \<open>
  The guard refuses every trigger filter that stores a truthy value under the key
  \<^verbatim>\<open>issue_comment\<close>, whatever the other fields are; a filter object, the empty one
  included, is such a value. The error is the one of the issue-comment trigger when the
  project has a CI-integration collaborator, and the one of the missing collaborator,
  which is checked first, otherwise.
\<close>

lemma truthy_issue_comment_refused:
  assumes "trigger options = Some t" and "truthy (js_prop t ''issue_comment'')"
  shows "\<exists>e this'. createBuildWorkflow nm options this = Inl (e, this') \<and>
           e = (if github this = None then NoGithubSupport else IssueCommentTrigger)"
  using assms
  by (simp add: createBuildWorkflow_def issue_comment_trigger_def addWorkflow_def Let_def
      split: option.splits)

lemma filter_object_issue_comment_refused:
  assumes "trigger options = Some t" and "t ''issue_comment'' = Some (JObj ps)"
  shows "\<exists>e this'. createBuildWorkflow nm options this = Inl (e, this') \<and>
           e = (if github this = None then NoGithubSupport else IssueCommentTrigger)"
proof -
  from assms(2) have "truthy (js_prop t ''issue_comment'')"
    by (simp add: js_prop_def)
  from truthy_issue_comment_refused [OF assms(1) this] show ?thesis .
qed


section \<open>Properties of the assembly\<close>

subsection \<open>What each block of the constructor keeps and changes\<close>

lemmas ctor_helper_defs =
  addTask_def task_push_def setScript_def addDevDeps_def gitignore_exclude_def
  gitignore_include_def npmignore_exclude_def addLicense_def addDefaultGitIgnore_def

lemma upgradePipelines_append:
  "upgradePipelines (xs @ ys) = upgradePipelines xs @ upgradePipelines ys"
  by (induction xs rule: upgradePipelines.induct) simp_all

lemma task_name_push:
  "map task_name (map (\<lambda>t. if task_name t = nm then t\<lparr>task_steps := task_steps t @ [st]\<rparr> else t) ts)
   = map task_name ts"
  by (induction ts) simp_all

lemma ctor_tasks_fields:
  "parent (ctor_tasks cs options base) = base_parent base"
  "github (ctor_tasks cs options base) = base_github base"
  "components (ctor_tasks cs options base) = base_components base"
  "packageName (package (ctor_tasks cs options base)) = packageName (newNodePackage cs)"
  "jest (ctor_tasks cs options base) = None"
  "release (ctor_tasks cs options base) = None"
  "autoMerge (ctor_tasks cs options base) = None"
  "buildWorkflow (ctor_tasks cs options base) = None"
  "antitamper (ctor_tasks cs options base) = False"
  by (simp_all add: ctor_tasks_def Let_def ctor_helper_defs)

lemma ctor_tasks_tasks:
  "map task_name (tasks (ctor_tasks cs options base)) =
     map task_name (base_tasks base) @ [''compile'', ''test:compile'', ''test'', ''build'']"
  by (simp add: ctor_tasks_def Let_def ctor_helper_defs task_name_push)

lemma devDeps_ctor_tasks:
  "devDeps (package (ctor_tasks cs options base)) = devDeps (newNodePackage cs)"
  by (simp add: ctor_tasks_def Let_def ctor_helper_defs)

lemma ctor_tasks_npmignore: "npmignore (ctor_tasks cs options base) = None"
  by (simp add: ctor_tasks_def Let_def ctor_helper_defs)

lemma ctor_files_fields:
  "parent (ctor_files options this) = parent this"
  "github (ctor_files options this) = github this"
  "tasks (ctor_files options this) = tasks this"
  "packageName (package (ctor_files options this)) = packageName (package this)"
  "jest (ctor_files options this) = jest this"
  "release (ctor_files options this) = release this"
  "autoMerge (ctor_files options this) = autoMerge this"
  "buildWorkflow (ctor_files options this) = buildWorkflow this"
  "antitamper (ctor_files options this) = antitamper this"
  "upgradePipelines (components (ctor_files options this)) = upgradePipelines (components this)"
  by (simp_all add: ctor_files_def Let_def ctor_helper_defs upgradePipelines_append
      split: option.splits)

lemma package_ctor_files: "package (ctor_files options this) = package this"
  by (simp add: ctor_files_def Let_def ctor_helper_defs split: option.splits)

lemma ctor_files_npmignore:
  "npmignore this = None \<Longrightarrow>
   npmignore (ctor_files options this) =
     (if nullish (opt_npmignoreEnabled options) True then Some [] else None)"
  by (simp add: ctor_files_def Let_def ctor_helper_defs split: option.splits)

lemma ctor_npmignore_Inl:
  "ctor_npmignore options this = Inl (e, t) \<Longrightarrow> e = NpmignoreNotDefined \<and> t = this"
  by (auto simp add: ctor_npmignore_def split: option.splits if_splits)

lemma ctor_npmignore_Inr:
  "ctor_npmignore options this = Inr t \<Longrightarrow>
     parent t = parent this \<and> github t = github this \<and> tasks t = tasks this \<and>
     package t = package this \<and> jest t = jest this \<and> release t = release this \<and>
     autoMerge t = autoMerge this \<and> buildWorkflow t = buildWorkflow this \<and>
     antitamper t = antitamper this \<and> components t = components this"
  by (auto simp add: ctor_npmignore_def ctor_helper_defs split: option.splits if_splits)

lemma ctor_projen_fields:
  "parent (ctor_projen cs options this) = parent this"
  "github (ctor_projen cs options this) = github this"
  "tasks (ctor_projen cs options this) = tasks this"
  "packageName (package (ctor_projen cs options this)) = packageName (package this)"
  "jest (ctor_projen cs options this) = jest this"
  "release (ctor_projen cs options this) = release this"
  "autoMerge (ctor_projen cs options this) = autoMerge this"
  "buildWorkflow (ctor_projen cs options this) = buildWorkflow this"
  "antitamper (ctor_projen cs options this) = antitamper this"
  "components (ctor_projen cs options this) = components this"
  by (simp_all add: ctor_projen_def Let_def ctor_helper_defs split: option.splits)

lemma ctor_projen_devDeps:
  "devDeps (package (ctor_projen cs options this)) =
     devDeps (package this) @
     (if nullish (opt_projenDevDependency options) True
      then [''projen@'' @ nullish (opt_projenVersion options) (''^'' @ PROJEN_VERSION cs)]
      else [])"
  by (simp add: ctor_projen_def Let_def ctor_helper_defs split: option.splits)

lemma ctor_jest_fields:
  "parent (ctor_jest cs options this) = parent this"
  "github (ctor_jest cs options this) = github this"
  "tasks (ctor_jest cs options this) = tasks this"
  "package (ctor_jest cs options this) = package this"
  "release (ctor_jest cs options this) = release this"
  "autoMerge (ctor_jest cs options this) = autoMerge this"
  "buildWorkflow (ctor_jest cs options this) = buildWorkflow this"
  "antitamper (ctor_jest cs options this) =
     (buildEnabled options this \<and> nullish (opt_antitamper options) True)"
  "upgradePipelines (components (ctor_jest cs options this)) = upgradePipelines (components this)"
  by (simp_all add: ctor_jest_def Let_def upgradePipelines_append)


text \<open>
  The options the constructor hands to the builder never name the issue-comment category,
  so the only error the build block can raise is the one of the missing collaborator.
\<close>

lemma build_options_trigger_free: "\<not> issue_comment_trigger (buildWorkflowOptions options)"
  by (simp add: issue_comment_trigger_def buildWorkflowOptions_def js_prop_def)

lemma createBuildWorkflow_no_github:
  "github this = None \<Longrightarrow> createBuildWorkflow nm options this = Inl (NoGithubSupport, this)"
  by (simp add: createBuildWorkflow_def)

lemma buildEnabled_eq:
  "buildEnabled options this = nullish (opt_buildWorkflow options) (\<not> parent this)"
  by (simp add: buildEnabled_def)

lemma releaseEnabled_parent:
  "releaseEnabled options this = nullish (opt_releaseWorkflow options) (\<not> parent this)"
  by (simp add: releaseEnabled_def)

lemma ctor_build_no_github:
  assumes "buildEnabled options this" and "github this = None"
  shows "ctor_build cs options this = Inl (NoGithubSupport, this)"
  using assms by (simp add: ctor_build_def createBuildWorkflow_no_github)

lemma ctor_build_disabled:
  assumes "\<not> buildEnabled options this"
  shows "ctor_build cs options this = Inr this"
  using assms by (simp add: ctor_build_def)

lemma ctor_build_github:
  assumes "buildEnabled options this" and "github this = Some gh"
  shows "\<exists>t gh'. ctor_build cs options this = Inr t \<and>
           parent t = parent this \<and> tasks t = tasks this \<and> github t = Some gh' \<and>
           mergify gh' = mergify gh \<and> dependabots gh' = dependabots gh \<and>
           package t = package this \<and>
           release t = release this \<and> autoMerge t = autoMerge this \<and>
           antitamper t = antitamper this \<and> components t = components this"
  using assms createBuildWorkflow_returns [OF assms(2) build_options_trigger_free, of "''Build''" options]
  by (simp add: ctor_build_def)

lemma ctor_build_Inl:
  assumes "ctor_build cs options this = Inl (e, t)"
  shows "e = NoGithubSupport \<and> t = this \<and> github this = None \<and> buildEnabled options this"
proof (cases "buildEnabled options this")
  case False
  with assms show ?thesis by (simp add: ctor_build_disabled)
next
  case True
  show ?thesis
  proof (cases "github this")
    case None
    with True assms show ?thesis by (simp add: ctor_build_no_github)
  next
    case (Some gh)
    from ctor_build_github [OF True Some, of cs] assms show ?thesis by auto
  qed
qed

lemma ctor_build_Inr:
  assumes "ctor_build cs options this = Inr t"
  shows "parent t = parent this \<and> tasks t = tasks this \<and>
         hasMergify (github t) = hasMergify (github this) \<and>
         map_option dependabots (github t) = map_option dependabots (github this) \<and>
         package t = package this \<and> release t = release this \<and>
         autoMerge t = autoMerge this \<and> antitamper t = antitamper this \<and>
         components t = components this \<and>
         (buildEnabled options this \<longrightarrow> github this \<noteq> None)"
proof (cases "buildEnabled options this")
  case False
  with assms show ?thesis by (simp add: ctor_build_disabled)
next
  case True
  show ?thesis
  proof (cases "github this")
    case None
    with True assms show ?thesis by (simp add: ctor_build_no_github)
  next
    case (Some gh)
    from ctor_build_github [OF True Some, of cs] assms Some show ?thesis
      by (auto simp add: hasMergify_def)
  qed
qed

lemma ctor_release_enabled:
  assumes "releaseEnabled options this"
  shows "\<exists>t. ctor_release cs options this = Inr t \<and>
           parent t = parent this \<and> tasks t = tasks this \<and> github t = github this \<and>
           packageName (package t) = packageName (package this) \<and>
           autoMerge t = autoMerge this \<and> antitamper t = antitamper this \<and>
           upgradePipelines (components t) = upgradePipelines (components this)"
  using assms
  by (simp add: ctor_release_def Let_def addDevDeps_def upgradePipelines_append)

lemma ctor_release_disabled:
  assumes "\<not> releaseEnabled options this"
  shows "ctor_release cs options this =
     (if opt_releaseToNpm options = Some True then Inl (ReleaseToNpmNotSupported, this)
      else if opt_releaseBranches options \<noteq> None then Inl (ReleaseBranchesNotSupported, this)
      else if opt_releaseEveryCommit options = Some True
        then Inl (ReleaseEveryCommitNotSupported, this)
      else if (\<exists>s. opt_releaseSchedule options = Some s \<and> s \<noteq> [])
        then Inl (ReleaseScheduleNotSupported, this)
      else Inr this)"
proof -
  have ts: "truthy_str (opt_releaseSchedule options) \<longleftrightarrow>
              (\<exists>s. opt_releaseSchedule options = Some s \<and> s \<noteq> [])"
    by (cases "opt_releaseSchedule options") (simp_all add: truthy_str_def)
  show ?thesis using assms by (simp add: ctor_release_def truthy_bool_def ts)
qed

lemma ctor_release_Inr:
  assumes "ctor_release cs options this = Inr t"
  shows "parent t = parent this \<and> tasks t = tasks this \<and> github t = github this \<and>
         packageName (package t) = packageName (package this) \<and>
         autoMerge t = autoMerge this \<and> antitamper t = antitamper this \<and>
         upgradePipelines (components t) = upgradePipelines (components this)"
proof (cases "releaseEnabled options this")
  case True
  from ctor_release_enabled [OF True, of cs] assms show ?thesis by auto
next
  case False
  from assms show ?thesis
    unfolding ctor_release_disabled [OF False] by (auto split: if_splits)
qed

lemma ctor_release_Inl:
  assumes "ctor_release cs options this = Inl (e, t)"
  shows "\<not> releaseEnabled options this \<and> t = this \<and>
         e \<in> {ReleaseToNpmNotSupported, ReleaseBranchesNotSupported,
              ReleaseEveryCommitNotSupported, ReleaseScheduleNotSupported}"
proof (cases "releaseEnabled options this")
  case True
  from ctor_release_enabled [OF True, of cs] assms show ?thesis by auto
next
  case False
  from assms show ?thesis
    unfolding ctor_release_disabled [OF False] using False by (auto split: if_splits)
qed

lemma ctor_autoMerge_fields:
  "parent (ctor_autoMerge cs options this) = parent this"
  "github (ctor_autoMerge cs options this) = github this"
  "tasks (ctor_autoMerge cs options this) = tasks this"
  "package (ctor_autoMerge cs options this) = package this"
  "release (ctor_autoMerge cs options this) = release this"
  "antitamper (ctor_autoMerge cs options this) = antitamper this"
  "upgradePipelines (components (ctor_autoMerge cs options this)) = upgradePipelines (components this)"
  "autoMerge (ctor_autoMerge cs options this) =
     (if hasMergify (github this)
      then Some (newAutoMerge cs (buildWorkflowJobId this) (opt_mergifyAutoMergeLabel options))
      else autoMerge this)"
  by (simp_all add: ctor_autoMerge_def hasMergify_def npmignore_exclude_def
      upgradePipelines_append split: option.splits)

lemma bind_fields:
  "parent (bind m this) = parent this"
  "tasks (bind m this) = tasks this"
  "package (bind m this) = package this"
  "release (bind m this) = release this"
  "antitamper (bind m this) = antitamper this"
  "autoMerge (bind m this) = autoMerge this"
  "hasMergify (github (bind m this)) = hasMergify (github this)"
  "upgradePipelines (components (bind m this)) =
     upgradePipelines (components this) @
     (case closure m of BindGithubWorkflow u \<Rightarrow> [u] | _ \<Rightarrow> [])"
  by (simp_all add: bind_def hasMergify_def upgradePipelines_append
      split: bind_closure.splits option.splits)

lemma ctor_depsUpgrade_cases:
  "ctor_depsUpgrade options this =
     (if opt_dependabot options \<noteq> None \<and> opt_depsUpgrade options \<noteq> None
      then Inl (DependabotWithDepsUpgrade, this)
      else Inr (bind (dependenciesUpgrade options) this))"
  by (simp add: ctor_depsUpgrade_def)

lemma ctor_projenUpgrade_fields:
  "parent (ctor_projenUpgrade options this) = parent this"
  "tasks (ctor_projenUpgrade options this) = tasks this"
  "github (ctor_projenUpgrade options this) = github this"
  "antitamper (ctor_projenUpgrade options this) = antitamper this"
  "autoMerge (ctor_projenUpgrade options this) = autoMerge this"
  "upgradePipelines (components (ctor_projenUpgrade options this)) =
     upgradePipelines (components this) @
     (if ignoresProjen (dependenciesUpgrade options) \<and> packageName (package this) \<noteq> ''projen''
      then [projenUpgradeOptions options this] else [])"
  by (simp_all add: ctor_projenUpgrade_def upgradePipelines_append)

lemma ctor_tail_fields:
  "parent (ctor_tail options this) = parent this"
  "tasks (ctor_tail options this) = tasks this"
  "antitamper (ctor_tail options this) = antitamper this"
  "autoMerge (ctor_tail options this) = autoMerge this"
  "upgradePipelines (components (ctor_tail options this)) = upgradePipelines (components this)"
  by (simp_all add: ctor_tail_def Let_def upgradePipelines_append split: option.splits)

lemma default_mechanism:
  "opt_dependabot options = None \<Longrightarrow> opt_depsUpgrade options = None \<Longrightarrow>
   dependenciesUpgrade options = githubWorkflow githubWorkflow_default"
  by (simp add: dependenciesUpgrade_def nullish_def Let_def)

lemma default_mechanism_closure:
  "closure (githubWorkflow githubWorkflow_default) = BindGithubWorkflow githubWorkflow_default"
  "ignoresProjen (githubWorkflow githubWorkflow_default)"
  by (simp_all add: githubWorkflow_def githubWorkflow_default_def ignoresProjen_def nullish_def)


subsection \<open>The constructor, block by block\<close>

text \<open>
  A successful assembly went through every block; a failed one stopped at exactly one of
  the five checks, in the state the preceding blocks had reached.
\<close>

lemma and_then_Inr: "and_then r f = Inr t \<longleftrightarrow> (\<exists>u. r = Inr u \<and> f u = Inr t)"
  by (cases r) (simp_all add: and_then_def)

lemma and_then_Inl: "and_then r f = Inl x \<longleftrightarrow> r = Inl x \<or> (\<exists>u. r = Inr u \<and> f u = Inl x)"
  by (cases r) (auto simp add: and_then_def)

lemma constructor_Inr:
  assumes "NodeProject_constructor cs options base = Inr this"
  shows "\<exists>t1 t3 t4.
     ctor_npmignore options (ctor_files options (ctor_tasks cs options base)) = Inr t1 \<and>
     truthy_str (opt_defaultReleaseBranch options) \<and>
     ctor_build cs options (ctor_jest cs options (ctor_projen cs options t1)) = Inr t3 \<and>
     ctor_release cs options t3 = Inr t4 \<and>
     (opt_dependabot options = None \<or> opt_depsUpgrade options = None) \<and>
     this = ctor_tail options (ctor_projenUpgrade options
              (bind (dependenciesUpgrade options) (ctor_autoMerge cs options t4)))"
  using assms
  by (auto simp add: NodeProject_constructor_def and_then_Inr ctor_depsUpgrade_cases
      ctor_defaultReleaseBranch_def split: if_splits)

lemma constructor_Inl:
  assumes "NodeProject_constructor cs options base = Inl (e, t)"
  shows "ctor_npmignore options (ctor_files options (ctor_tasks cs options base)) = Inl (e, t) \<or>
    (\<exists>t1. ctor_npmignore options (ctor_files options (ctor_tasks cs options base)) = Inr t1 \<and>
       (\<not> truthy_str (opt_defaultReleaseBranch options) \<and>
          e = DefaultReleaseBranchRequired \<and> t = ctor_projen cs options t1 \<or>
        truthy_str (opt_defaultReleaseBranch options) \<and>
        (ctor_build cs options (ctor_jest cs options (ctor_projen cs options t1)) = Inl (e, t) \<or>
         (\<exists>t3. ctor_build cs options (ctor_jest cs options (ctor_projen cs options t1)) = Inr t3 \<and>
            (ctor_release cs options t3 = Inl (e, t) \<or>
             (\<exists>t4. ctor_release cs options t3 = Inr t4 \<and>
                opt_dependabot options \<noteq> None \<and> opt_depsUpgrade options \<noteq> None \<and>
                e = DependabotWithDepsUpgrade \<and> t = ctor_autoMerge cs options t4))))))"
  using assms
  by (auto simp add: NodeProject_constructor_def and_then_Inl ctor_depsUpgrade_cases
      ctor_defaultReleaseBranch_def split: if_splits)

lemma constructor_stage1_fails:
  "ctor_npmignore options (ctor_files options (ctor_tasks cs options base)) = Inl x \<Longrightarrow>
   NodeProject_constructor cs options base = Inl x"
  by (simp add: NodeProject_constructor_def and_then_def)

lemma constructor_branch_fails:
  "ctor_npmignore options (ctor_files options (ctor_tasks cs options base)) = Inr t1 \<Longrightarrow>
   \<not> truthy_str (opt_defaultReleaseBranch options) \<Longrightarrow>
   NodeProject_constructor cs options base
     = Inl (DefaultReleaseBranchRequired, ctor_projen cs options t1)"
  by (simp add: NodeProject_constructor_def and_then_def ctor_defaultReleaseBranch_def)

lemma constructor_build_fails:
  "ctor_npmignore options (ctor_files options (ctor_tasks cs options base)) = Inr t1 \<Longrightarrow>
   truthy_str (opt_defaultReleaseBranch options) \<Longrightarrow>
   ctor_build cs options (ctor_jest cs options (ctor_projen cs options t1)) = Inl x \<Longrightarrow>
   NodeProject_constructor cs options base = Inl x"
  by (simp add: NodeProject_constructor_def and_then_def ctor_defaultReleaseBranch_def)

lemma constructor_release_fails:
  "ctor_npmignore options (ctor_files options (ctor_tasks cs options base)) = Inr t1 \<Longrightarrow>
   truthy_str (opt_defaultReleaseBranch options) \<Longrightarrow>
   ctor_build cs options (ctor_jest cs options (ctor_projen cs options t1)) = Inr t3 \<Longrightarrow>
   ctor_release cs options t3 = Inl x \<Longrightarrow>
   NodeProject_constructor cs options base = Inl x"
  by (simp add: NodeProject_constructor_def and_then_def ctor_defaultReleaseBranch_def)

lemma constructor_upgrade_fails:
  "ctor_npmignore options (ctor_files options (ctor_tasks cs options base)) = Inr t1 \<Longrightarrow>
   truthy_str (opt_defaultReleaseBranch options) \<Longrightarrow>
   ctor_build cs options (ctor_jest cs options (ctor_projen cs options t1)) = Inr t3 \<Longrightarrow>
   ctor_release cs options t3 = Inr t4 \<Longrightarrow>
   opt_dependabot options \<noteq> None \<Longrightarrow> opt_depsUpgrade options \<noteq> None \<Longrightarrow>
   NodeProject_constructor cs options base
     = Inl (DependabotWithDepsUpgrade, ctor_autoMerge cs options t4)"
  by (simp add: NodeProject_constructor_def and_then_def ctor_defaultReleaseBranch_def
      ctor_depsUpgrade_cases)

lemma constructor_returns:
  "ctor_npmignore options (ctor_files options (ctor_tasks cs options base)) = Inr t1 \<Longrightarrow>
   truthy_str (opt_defaultReleaseBranch options) \<Longrightarrow>
   ctor_build cs options (ctor_jest cs options (ctor_projen cs options t1)) = Inr t3 \<Longrightarrow>
   ctor_release cs options t3 = Inr t4 \<Longrightarrow>
   opt_dependabot options = None \<or> opt_depsUpgrade options = None \<Longrightarrow>
   NodeProject_constructor cs options base
     = Inr (ctor_tail options (ctor_projenUpgrade options
              (bind (dependenciesUpgrade options) (ctor_autoMerge cs options t4))))"
  by (auto simp add: NodeProject_constructor_def and_then_def ctor_defaultReleaseBranch_def
      ctor_depsUpgrade_cases)


subsection \<open>The state along the assembly\<close>

lemma stage1_Inr:
  assumes "ctor_npmignore options (ctor_files options (ctor_tasks cs options base)) = Inr t1"
  shows "parent t1 = base_parent base" "github t1 = base_github base"
    "map task_name (tasks t1) =
       map task_name (base_tasks base) @ [''compile'', ''test:compile'', ''test'', ''build'']"
    "packageName (package t1) = packageName (newNodePackage cs)"
    "jest t1 = None" "release t1 = None" "autoMerge t1 = None" "antitamper t1 = False"
    "upgradePipelines (components t1) = upgradePipelines (base_components base)"
  using ctor_npmignore_Inr [OF assms]
  by (simp_all add: ctor_files_fields ctor_tasks_fields ctor_tasks_tasks)

lemma stage1_Inl:
  assumes "ctor_npmignore options (ctor_files options (ctor_tasks cs options base)) = Inl (e, t)"
  shows "e = NpmignoreNotDefined" "github t = base_github base"
    "map task_name (tasks t) =
       map task_name (base_tasks base) @ [''compile'', ''test:compile'', ''test'', ''build'']"
    "jest t = None" "release t = None" "autoMerge t = None"
    "upgradePipelines (components t) = upgradePipelines (base_components base)"
  using ctor_npmignore_Inl [OF assms]
  by (simp_all add: ctor_files_fields ctor_tasks_fields ctor_tasks_tasks)

lemma stage1_devDeps:
  assumes "ctor_npmignore options (ctor_files options (ctor_tasks cs options base)) = Inr t1"
  shows "devDeps (package t1) = devDeps (newNodePackage cs)"
  using ctor_npmignore_Inr [OF assms] by (simp add: package_ctor_files devDeps_ctor_tasks)

lemma stage2_fields:
  assumes "ctor_npmignore options (ctor_files options (ctor_tasks cs options base)) = Inr t1"
  shows "parent (ctor_jest cs options (ctor_projen cs options t1)) = base_parent base"
    "github (ctor_jest cs options (ctor_projen cs options t1)) = base_github base"
    "map task_name (tasks (ctor_jest cs options (ctor_projen cs options t1))) =
       map task_name (base_tasks base) @ [''compile'', ''test:compile'', ''test'', ''build'']"
    "packageName (package (ctor_jest cs options (ctor_projen cs options t1)))
       = packageName (newNodePackage cs)"
    "release (ctor_jest cs options (ctor_projen cs options t1)) = None"
    "autoMerge (ctor_jest cs options (ctor_projen cs options t1)) = None"
    "antitamper (ctor_jest cs options (ctor_projen cs options t1)) =
       (nullish (opt_buildWorkflow options) (\<not> base_parent base) \<and>
        nullish (opt_antitamper options) True)"
    "upgradePipelines (components (ctor_jest cs options (ctor_projen cs options t1)))
       = upgradePipelines (base_components base)"
    "buildEnabled options (ctor_jest cs options (ctor_projen cs options t1))
       = nullish (opt_buildWorkflow options) (\<not> base_parent base)"
  using stage1_Inr [OF assms]
  by (simp_all add: ctor_jest_fields ctor_projen_fields buildEnabled_eq)

lemma stage2_projen_fields:
  assumes "ctor_npmignore options (ctor_files options (ctor_tasks cs options base)) = Inr t1"
  shows "github (ctor_projen cs options t1) = base_github base"
    "map task_name (tasks (ctor_projen cs options t1)) =
       map task_name (base_tasks base) @ [''compile'', ''test:compile'', ''test'', ''build'']"
    "jest (ctor_projen cs options t1) = None"
    "release (ctor_projen cs options t1) = None"
    "autoMerge (ctor_projen cs options t1) = None"
    "upgradePipelines (components (ctor_projen cs options t1))
       = upgradePipelines (base_components base)"
  using stage1_Inr [OF assms]
  by (simp_all add: ctor_projen_fields)

lemma stage3_Inr:
  assumes "ctor_npmignore options (ctor_files options (ctor_tasks cs options base)) = Inr t1"
    and "ctor_build cs options (ctor_jest cs options (ctor_projen cs options t1)) = Inr t3"
  shows "parent t3 = base_parent base"
    "hasMergify (github t3) = hasMergify (base_github base)"
    "map task_name (tasks t3) =
       map task_name (base_tasks base) @ [''compile'', ''test:compile'', ''test'', ''build'']"
    "packageName (package t3) = packageName (newNodePackage cs)"
    "release t3 = None" "autoMerge t3 = None"
    "antitamper t3 =
       (nullish (opt_buildWorkflow options) (\<not> base_parent base) \<and>
        nullish (opt_antitamper options) True)"
    "upgradePipelines (components t3) = upgradePipelines (base_components base)"
  using ctor_build_Inr [OF assms(2)] stage2_fields [OF assms(1)]
  by simp_all

lemma stage3_fails:
  assumes "ctor_npmignore options (ctor_files options (ctor_tasks cs options base)) = Inr t1"
    and "ctor_build cs options (ctor_jest cs options (ctor_projen cs options t1)) = Inl (e, t)"
  shows "e = NoGithubSupport" "base_github base = None"
    "t = ctor_jest cs options (ctor_projen cs options t1)"
  using ctor_build_Inl [OF assms(2)] stage2_fields [OF assms(1)] by simp_all

lemma stage4_Inr:
  assumes "ctor_npmignore options (ctor_files options (ctor_tasks cs options base)) = Inr t1"
    and "ctor_build cs options (ctor_jest cs options (ctor_projen cs options t1)) = Inr t3"
    and "ctor_release cs options t3 = Inr t4"
  shows "parent t4 = base_parent base"
    "hasMergify (github t4) = hasMergify (base_github base)"
    "map task_name (tasks t4) =
       map task_name (base_tasks base) @ [''compile'', ''test:compile'', ''test'', ''build'']"
    "packageName (package t4) = packageName (newNodePackage cs)"
    "autoMerge t4 = None"
    "antitamper t4 =
       (nullish (opt_buildWorkflow options) (\<not> base_parent base) \<and>
        nullish (opt_antitamper options) True)"
    "upgradePipelines (components t4) = upgradePipelines (base_components base)"
  using ctor_release_Inr [OF assms(3)] stage3_Inr [OF assms(1,2)]
  by simp_all

lemma constructor_Inr_summary:
  assumes "NodeProject_constructor cs options base = Inr this"
  shows "antitamper this =
       (nullish (opt_buildWorkflow options) (\<not> base_parent base) \<and>
        nullish (opt_antitamper options) True)"
    "map task_name (tasks this) =
       map task_name (base_tasks base) @ [''compile'', ''test:compile'', ''test'', ''build'']"
    "autoMerge this \<noteq> None \<longleftrightarrow> hasMergify (base_github base)"
    "upgradePipelines (components this) =
       upgradePipelines (base_components base) @
       (case closure (dependenciesUpgrade options) of BindGithubWorkflow u \<Rightarrow> [u] | _ \<Rightarrow> []) @
       (if ignoresProjen (dependenciesUpgrade options) \<and>
           packageName (newNodePackage cs) \<noteq> ''projen''
        then [projenUpgradeOptions options this] else [])"
proof -
  obtain t1 t3 t4 where s:
    "ctor_npmignore options (ctor_files options (ctor_tasks cs options base)) = Inr t1"
    "ctor_build cs options (ctor_jest cs options (ctor_projen cs options t1)) = Inr t3"
    "ctor_release cs options t3 = Inr t4"
    and t: "this = ctor_tail options (ctor_projenUpgrade options
              (bind (dependenciesUpgrade options) (ctor_autoMerge cs options t4)))"
    using constructor_Inr [OF assms] by blast
  note f = stage4_Inr [OF s]
  let ?b = "bind (dependenciesUpgrade options) (ctor_autoMerge cs options t4)"
  have am: "autoMerge this = autoMerge ?b"
    by (simp add: t ctor_tail_fields ctor_projenUpgrade_fields)
  show "antitamper this =
       (nullish (opt_buildWorkflow options) (\<not> base_parent base) \<and>
        nullish (opt_antitamper options) True)"
    by (simp add: t ctor_tail_fields ctor_projenUpgrade_fields bind_fields ctor_autoMerge_fields f)
  show "map task_name (tasks this) =
       map task_name (base_tasks base) @ [''compile'', ''test:compile'', ''test'', ''build'']"
    by (simp add: t ctor_tail_fields ctor_projenUpgrade_fields bind_fields ctor_autoMerge_fields f)
  show "autoMerge this \<noteq> None \<longleftrightarrow> hasMergify (base_github base)"
    by (simp add: t ctor_tail_fields ctor_projenUpgrade_fields bind_fields ctor_autoMerge_fields f)
  have pu: "projenUpgradeOptions options ?b = projenUpgradeOptions options this"
    using am by (simp add: projenUpgradeOptions_def)
  show "upgradePipelines (components this) =
       upgradePipelines (base_components base) @
       (case closure (dependenciesUpgrade options) of BindGithubWorkflow u \<Rightarrow> [u] | _ \<Rightarrow> []) @
       (if ignoresProjen (dependenciesUpgrade options) \<and>
           packageName (newNodePackage cs) \<noteq> ''projen''
        then [projenUpgradeOptions options this] else [])"
    unfolding pu [symmetric]
    by (simp add: t ctor_tail_fields ctor_projenUpgrade_fields bind_fields ctor_autoMerge_fields f)
qed


subsection \<open>When the assembly returns, and when it raises\<close>

text \<open>
  The assembly returns whenever none of its five checks fires; the conditions are on the
  options and on what the base class provides.
\<close>

lemma stage1_succeeds:
  assumes "opt_npmignore options = None \<or> opt_npmignore options = Some [] \<or>
           nullish (opt_npmignoreEnabled options) True"
  shows "\<exists>t1. ctor_npmignore options (ctor_files options (ctor_tasks cs options base)) = Inr t1"
  using assms ctor_files_npmignore [OF ctor_tasks_npmignore, of options cs options base]
  by (auto simp add: ctor_npmignore_def split: option.splits)

lemma stage3_succeeds:
  assumes "ctor_npmignore options (ctor_files options (ctor_tasks cs options base)) = Inr t1"
    and "nullish (opt_buildWorkflow options) (\<not> base_parent base) \<longrightarrow> base_github base \<noteq> None"
  shows "\<exists>t3. ctor_build cs options (ctor_jest cs options (ctor_projen cs options t1)) = Inr t3"
proof (cases "nullish (opt_buildWorkflow options) (\<not> base_parent base)")
  case False
  then have "\<not> buildEnabled options (ctor_jest cs options (ctor_projen cs options t1))"
    by (simp add: stage2_fields [OF assms(1)])
  from ctor_build_disabled [OF this] show ?thesis by blast
next
  case True
  then have b: "buildEnabled options (ctor_jest cs options (ctor_projen cs options t1))"
    by (simp add: stage2_fields [OF assms(1)])
  from True assms(2) obtain gh where "base_github base = Some gh" by auto
  then have g: "github (ctor_jest cs options (ctor_projen cs options t1)) = Some gh"
    by (simp add: stage2_fields [OF assms(1)])
  from ctor_build_github [OF b g] show ?thesis by blast
qed

lemma constructor_succeeds:
  assumes np: "opt_npmignore options = None \<or> opt_npmignore options = Some [] \<or>
           nullish (opt_npmignoreEnabled options) True"
    and db: "truthy_str (opt_defaultReleaseBranch options)"
    and gh: "nullish (opt_buildWorkflow options) (\<not> base_parent base) \<longrightarrow> base_github base \<noteq> None"
    and rel: "nullish (opt_releaseWorkflow options) (\<not> base_parent base) \<or>
        (opt_releaseToNpm options \<noteq> Some True \<and> opt_releaseBranches options = None \<and>
         opt_releaseEveryCommit options \<noteq> Some True \<and>
         \<not> (\<exists>s. opt_releaseSchedule options = Some s \<and> s \<noteq> []))"
    and up: "opt_dependabot options = None \<or> opt_depsUpgrade options = None"
  shows "\<exists>this. NodeProject_constructor cs options base = Inr this"
proof -
  obtain t1 where s1:
    "ctor_npmignore options (ctor_files options (ctor_tasks cs options base)) = Inr t1"
    using stage1_succeeds [OF np] by blast
  obtain t3 where s3:
    "ctor_build cs options (ctor_jest cs options (ctor_projen cs options t1)) = Inr t3"
    using stage3_succeeds [OF s1 gh] by blast
  have p3: "parent t3 = base_parent base" by (rule stage3_Inr(1) [OF s1 s3])
  have "\<exists>t4. ctor_release cs options t3 = Inr t4"
  proof (cases "releaseEnabled options t3")
    case True
    from ctor_release_enabled [OF True] show ?thesis by blast
  next
    case False
    with rel p3 show ?thesis
      unfolding ctor_release_disabled [OF False] by (simp add: releaseEnabled_parent)
  qed
  then obtain t4 where s4: "ctor_release cs options t3 = Inr t4" by blast
  from constructor_returns [OF s1 db s3 s4 up] show ?thesis by blast
qed

lemma constructor_branch_error:
  assumes np: "opt_npmignore options = None \<or> opt_npmignore options = Some [] \<or>
           nullish (opt_npmignoreEnabled options) True"
    and db: "\<not> truthy_str (opt_defaultReleaseBranch options)"
  shows "\<exists>t. NodeProject_constructor cs options base = Inl (DefaultReleaseBranchRequired, t) \<and>
           map task_name (tasks t) =
             map task_name (base_tasks base) @ [''compile'', ''test:compile'', ''test'', ''build''] \<and>
           devDeps (package t) =
             devDeps (newNodePackage cs) @
             (if nullish (opt_projenDevDependency options) True
              then [''projen@'' @ nullish (opt_projenVersion options) (''^'' @ PROJEN_VERSION cs)]
              else [])"
proof -
  obtain t1 where s1:
    "ctor_npmignore options (ctor_files options (ctor_tasks cs options base)) = Inr t1"
    using stage1_succeeds [OF np] by blast
  have d: "devDeps (package (ctor_projen cs options t1)) =
             devDeps (newNodePackage cs) @
             (if nullish (opt_projenDevDependency options) True
              then [''projen@'' @ nullish (opt_projenVersion options) (''^'' @ PROJEN_VERSION cs)]
              else [])"
    unfolding ctor_projen_devDeps stage1_devDeps [OF s1] ..
  from constructor_branch_fails [OF s1 db] stage2_projen_fields(2) [OF s1] d
  show ?thesis by blast
qed

lemma constructor_release_error:
  assumes np: "opt_npmignore options = None \<or> opt_npmignore options = Some [] \<or>
           nullish (opt_npmignoreEnabled options) True"
    and db: "truthy_str (opt_defaultReleaseBranch options)"
    and gh: "nullish (opt_buildWorkflow options) (\<not> base_parent base) \<longrightarrow> base_github base \<noteq> None"
    and rel: "\<not> nullish (opt_releaseWorkflow options) (\<not> base_parent base)"
    and npm: "opt_releaseToNpm options = Some True"
  shows "\<exists>t. NodeProject_constructor cs options base = Inl (ReleaseToNpmNotSupported, t)"
proof -
  obtain t1 where s1:
    "ctor_npmignore options (ctor_files options (ctor_tasks cs options base)) = Inr t1"
    using stage1_succeeds [OF np] by blast
  obtain t3 where s3:
    "ctor_build cs options (ctor_jest cs options (ctor_projen cs options t1)) = Inr t3"
    using stage3_succeeds [OF s1 gh] by blast
  have "\<not> releaseEnabled options t3"
    using rel stage3_Inr(1) [OF s1 s3] by (simp add: releaseEnabled_parent)
  from ctor_release_disabled [OF this, of cs] npm
  have "ctor_release cs options t3 = Inl (ReleaseToNpmNotSupported, t3)" by simp
  from constructor_release_fails [OF s1 db s3 this] show ?thesis by blast
qed

lemma constructor_upgrade_error:
  assumes np: "opt_npmignore options = None \<or> opt_npmignore options = Some [] \<or>
           nullish (opt_npmignoreEnabled options) True"
    and db: "truthy_str (opt_defaultReleaseBranch options)"
    and gh: "nullish (opt_buildWorkflow options) (\<not> base_parent base) \<longrightarrow> base_github base \<noteq> None"
    and rel: "nullish (opt_releaseWorkflow options) (\<not> base_parent base)"
    and both: "opt_dependabot options \<noteq> None" "opt_depsUpgrade options \<noteq> None"
  shows "\<exists>t. NodeProject_constructor cs options base = Inl (DependabotWithDepsUpgrade, t)"
proof -
  obtain t1 where s1:
    "ctor_npmignore options (ctor_files options (ctor_tasks cs options base)) = Inr t1"
    using stage1_succeeds [OF np] by blast
  obtain t3 where s3:
    "ctor_build cs options (ctor_jest cs options (ctor_projen cs options t1)) = Inr t3"
    using stage3_succeeds [OF s1 gh] by blast
  have "releaseEnabled options t3"
    using rel stage3_Inr(1) [OF s1 s3] by (simp add: releaseEnabled_parent)
  from ctor_release_enabled [OF this, of cs] obtain t4 where
    s4: "ctor_release cs options t3 = Inr t4" by blast
  from constructor_upgrade_fails [OF s1 db s3 s4 both] show ?thesis by blast
qed


subsection \<open>The assembly on the concrete inputs\<close>

lemma ex_options_valid:
  "opt_npmignore ex_options = None \<or> opt_npmignore ex_options = Some [] \<or>
           nullish (opt_npmignoreEnabled ex_options) True"
  "truthy_str (opt_defaultReleaseBranch ex_options)"
  "nullish (opt_buildWorkflow ex_options) (\<not> base_parent ex_base) \<longrightarrow> base_github ex_base \<noteq> None"
  "nullish (opt_releaseWorkflow ex_options) (\<not> base_parent ex_base) \<or>
        (opt_releaseToNpm ex_options \<noteq> Some True \<and> opt_releaseBranches ex_options = None \<and>
         opt_releaseEveryCommit ex_options \<noteq> Some True \<and>
         \<not> (\<exists>s. opt_releaseSchedule ex_options = Some s \<and> s \<noteq> []))"
  "opt_dependabot ex_options = None \<or> opt_depsUpgrade ex_options = None"
  by (simp_all add: ex_options_def ex_base_def nullish_def truthy_str_def)

lemma ex_constructor_returns:
  "\<exists>this. NodeProject_constructor ex_collaborators ex_options ex_base = Inr this"
  by (rule constructor_succeeds [OF ex_options_valid])

lemma ex_no_branch_fails:
  "\<exists>t. NodeProject_constructor ex_collaborators ex_options_no_branch ex_base
          = Inl (DefaultReleaseBranchRequired, t) \<and>
       map task_name (tasks t) = [''compile'', ''test:compile'', ''test'', ''build''] \<and>
       devDeps (package t) = [''projen@^0.17.0'']"
proof -
  have np: "opt_npmignore ex_options_no_branch = None \<or> opt_npmignore ex_options_no_branch = Some [] \<or>
           nullish (opt_npmignoreEnabled ex_options_no_branch) True"
    and db: "\<not> truthy_str (opt_defaultReleaseBranch ex_options_no_branch)"
    by (simp_all add: ex_options_no_branch_def ex_options_def truthy_str_def)
  from constructor_branch_error [OF np db, of ex_collaborators ex_base]
  obtain t where
    a: "NodeProject_constructor ex_collaborators ex_options_no_branch ex_base
          = Inl (DefaultReleaseBranchRequired, t)"
    and b: "map task_name (tasks t) =
             map task_name (base_tasks ex_base) @
             [''compile'', ''test:compile'', ''test'', ''build'']"
    and c: "devDeps (package t) =
             devDeps (newNodePackage ex_collaborators) @
             (if nullish (opt_projenDevDependency ex_options_no_branch) True
              then [''projen@'' @ nullish (opt_projenVersion ex_options_no_branch)
                                    (''^'' @ PROJEN_VERSION ex_collaborators)]
              else [])"
    by blast
  have b': "map task_name (tasks t) = [''compile'', ''test:compile'', ''test'', ''build'']"
    unfolding b by (simp add: ex_base_def)
  have c': "devDeps (package t) = [''projen@^0.17.0'']"
    unfolding c
    by (simp add: ex_options_no_branch_def ex_options_def ex_collaborators_def
        ex_package_def nullish_def)
  from a b' c' show ?thesis by (intro exI [of _ t] conjI)
qed

lemma ex_no_release_fails:
  "\<exists>t. NodeProject_constructor ex_collaborators ex_options_no_release ex_base
          = Inl (ReleaseToNpmNotSupported, t)"
  by (rule constructor_release_error)
     (simp_all add: ex_options_no_release_def ex_options_def ex_base_def nullish_def
        truthy_str_def)

lemma ex_both_upgrades_fails:
  "\<exists>t. NodeProject_constructor ex_collaborators ex_options_both_upgrades ex_base
          = Inl (DependabotWithDepsUpgrade, t)"
  by (rule constructor_upgrade_error)
     (simp_all add: ex_options_both_upgrades_def ex_options_def ex_base_def nullish_def
        truthy_str_def)

lemma ex_comment_trigger_fails:
  "createBuildWorkflow ''Build'' ex_comment_trigger_options ex_this =
     Inl (IssueCommentTrigger,
          ex_this\<lparr>github := Some (ex_github\<lparr>workflows := workflows ex_github @
            [\<lparr>wf_name = ''Build'', wf_events = Map.empty, wf_jobs = []\<rparr>]\<rparr>)\<rparr>)"
proof -
  have g: "github ex_this = Some ex_github" by (simp add: ex_this_def)
  have t: "issue_comment_trigger ex_comment_trigger_options"
    by (simp add: issue_comment_trigger_def ex_comment_trigger_options_def
        ex_build_options_def js_prop_def)
  show ?thesis
    by (simp add: createBuildWorkflow_def g t addWorkflow_def Let_def)
qed


subsection \<open>The sitewide anti-tamper flag\<close>

text \<open>
  Claim C9. In every assembled project the sitewide anti-tamper flag is the conjunction of
  "the build workflow is enabled" (the caller's \<^verbatim>\<open>buildWorkflow\<close> option, which defaults
  to true for a root project and to false for a subproject) and the caller's
  \<^verbatim>\<open>antitamper\<close> option defaulted to true: with the build workflow disabled the flag is
  false whatever the caller asked for, with it enabled the flag is the caller's option.
\<close>

theorem antitamper_only_with_build_workflow:
  assumes "NodeProject_constructor cs options base = Inr this"
  shows "antitamper this =
           (nullish (opt_buildWorkflow options) (\<not> base_parent base) \<and>
            nullish (opt_antitamper options) True) \<and>
         (\<not> nullish (opt_buildWorkflow options) (\<not> base_parent base) \<longrightarrow> \<not> antitamper this) \<and>
         (nullish (opt_buildWorkflow options) (\<not> base_parent base) \<longrightarrow>
            antitamper this = nullish (opt_antitamper options) True)"
  using constructor_Inr_summary(1) [OF assms] by simp

theorem antitamper_only_with_build_workflow_witness:
  "\<exists>this. NodeProject_constructor ex_collaborators ex_options ex_base = Inr this \<and>
          antitamper this"
proof -
  obtain this where r: "NodeProject_constructor ex_collaborators ex_options ex_base = Inr this"
    using ex_constructor_returns by blast
  from antitamper_only_with_build_workflow [OF r] have "antitamper this"
    by (simp add: ex_options_def ex_base_def nullish_def)
  with r show ?thesis by blast
qed


subsection \<open>Release options without a release workflow\<close>

text \<open>
  Claim C4. With the release workflow disabled, the assembly raises an error as soon as
  one of these is set: the publish-to-registry flag, a non-empty release-branch list, the
  release-every-commit flag, a non-empty release schedule. The error is the one of the
  first such option in this order, unless one of the checks that precede the release
  block (the ignore-file check, the default-branch check, the missing CI-integration
  collaborator) has already raised. With the release workflow enabled, no error of the
  assembly is one of these four. The source has one error class; the errors are told
  apart by their throw site.
\<close>

theorem release_options_need_release_workflow:
  "(\<not> nullish (opt_releaseWorkflow options) (\<not> base_parent base) \<and>
    (opt_releaseToNpm options = Some True \<or>
     (\<exists>bs. opt_releaseBranches options = Some bs \<and> bs \<noteq> []) \<or>
     opt_releaseEveryCommit options = Some True \<or>
     (\<exists>s. opt_releaseSchedule options = Some s \<and> s \<noteq> []))
    \<longrightarrow> (\<exists>e this. NodeProject_constructor cs options base = Inl (e, this) \<and>
          e \<in> {NpmignoreNotDefined, DefaultReleaseBranchRequired, NoGithubSupport,
               ReleaseToNpmNotSupported, ReleaseBranchesNotSupported,
               ReleaseEveryCommitNotSupported, ReleaseScheduleNotSupported} \<and>
          (e \<in> {NpmignoreNotDefined, DefaultReleaseBranchRequired, NoGithubSupport} \<or>
           e = (if opt_releaseToNpm options = Some True then ReleaseToNpmNotSupported
                else if opt_releaseBranches options \<noteq> None then ReleaseBranchesNotSupported
                else if opt_releaseEveryCommit options = Some True
                  then ReleaseEveryCommitNotSupported
                else ReleaseScheduleNotSupported)))) \<and>
   (nullish (opt_releaseWorkflow options) (\<not> base_parent base)
    \<longrightarrow> (\<forall>e this. NodeProject_constructor cs options base = Inl (e, this) \<longrightarrow>
          e \<notin> {ReleaseToNpmNotSupported, ReleaseBranchesNotSupported,
               ReleaseEveryCommitNotSupported, ReleaseScheduleNotSupported}))"
proof (intro conjI impI allI)
  assume h: "\<not> nullish (opt_releaseWorkflow options) (\<not> base_parent base) \<and>
    (opt_releaseToNpm options = Some True \<or>
     (\<exists>bs. opt_releaseBranches options = Some bs \<and> bs \<noteq> []) \<or>
     opt_releaseEveryCommit options = Some True \<or>
     (\<exists>s. opt_releaseSchedule options = Some s \<and> s \<noteq> []))"
  let ?P = "\<lambda>e. e \<in> {NpmignoreNotDefined, DefaultReleaseBranchRequired, NoGithubSupport,
               ReleaseToNpmNotSupported, ReleaseBranchesNotSupported,
               ReleaseEveryCommitNotSupported, ReleaseScheduleNotSupported} \<and>
          (e \<in> {NpmignoreNotDefined, DefaultReleaseBranchRequired, NoGithubSupport} \<or>
           e = (if opt_releaseToNpm options = Some True then ReleaseToNpmNotSupported
                else if opt_releaseBranches options \<noteq> None then ReleaseBranchesNotSupported
                else if opt_releaseEveryCommit options = Some True
                  then ReleaseEveryCommitNotSupported
                else ReleaseScheduleNotSupported))"
  show "\<exists>e this. NodeProject_constructor cs options base = Inl (e, this) \<and> ?P e"
  proof (cases "ctor_npmignore options (ctor_files options (ctor_tasks cs options base))")
    case (Inl x)
    obtain e t where x: "x = (e, t)" by (cases x)
    from stage1_Inl(1) [OF Inl [unfolded x]] constructor_stage1_fails [OF Inl] x
    show ?thesis by simp
  next
    case (Inr t1)
    show ?thesis
    proof (cases "truthy_str (opt_defaultReleaseBranch options)")
      case False
      from constructor_branch_fails [OF Inr False] show ?thesis by simp
    next
      case True
      show ?thesis
      proof (cases "ctor_build cs options (ctor_jest cs options (ctor_projen cs options t1))")
        case b: (Inl x)
        obtain e t where x: "x = (e, t)" by (cases x)
        from stage3_fails(1) [OF Inr b [unfolded x]] constructor_build_fails [OF Inr True b] x
        show ?thesis by simp
      next
        case b: (Inr t3)
        have "\<not> releaseEnabled options t3"
          using h stage3_Inr(1) [OF Inr b] by (simp add: releaseEnabled_parent)
        from ctor_release_disabled [OF this, of cs] h
        have "\<exists>e. ctor_release cs options t3 = Inl (e, t3) \<and> ?P e"
          by auto
        then obtain e where r: "ctor_release cs options t3 = Inl (e, t3)" and p: "?P e"
          by blast
        from constructor_release_fails [OF Inr True b r] p show ?thesis by blast
      qed
    qed
  qed
next
  fix e this
  assume en: "nullish (opt_releaseWorkflow options) (\<not> base_parent base)"
    and f: "NodeProject_constructor cs options base = Inl (e, this)"
  from constructor_Inl [OF f]
  show "e \<notin> {ReleaseToNpmNotSupported, ReleaseBranchesNotSupported,
               ReleaseEveryCommitNotSupported, ReleaseScheduleNotSupported}"
  proof (elim disjE exE conjE)
    assume "ctor_npmignore options (ctor_files options (ctor_tasks cs options base)) = Inl (e, this)"
    from stage1_Inl(1) [OF this] show ?thesis by simp
  next
    fix t1 assume "e = DefaultReleaseBranchRequired"
    then show ?thesis by simp
  next
    fix t1
    assume "ctor_npmignore options (ctor_files options (ctor_tasks cs options base)) = Inr t1"
      and "ctor_build cs options (ctor_jest cs options (ctor_projen cs options t1)) = Inl (e, this)"
    from stage3_fails(1) [OF this] show ?thesis by simp
  next
    fix t1 t3
    assume s: "ctor_npmignore options (ctor_files options (ctor_tasks cs options base)) = Inr t1"
      "ctor_build cs options (ctor_jest cs options (ctor_projen cs options t1)) = Inr t3"
      and r: "ctor_release cs options t3 = Inl (e, this)"
    from ctor_release_Inl [OF r] en stage3_Inr(1) [OF s] show ?thesis
      by (simp add: releaseEnabled_parent)
  next
    fix t1 t3 t4 assume "e = DependabotWithDepsUpgrade"
    then show ?thesis by simp
  qed
qed

theorem release_options_need_release_workflow_witness:
  "\<not> nullish (opt_releaseWorkflow ex_options_no_release) (\<not> base_parent ex_base) \<and>
   opt_releaseToNpm ex_options_no_release = Some True \<and>
   (\<exists>this. NodeProject_constructor ex_collaborators ex_options_no_release ex_base
             = Inl (ReleaseToNpmNotSupported, this)) \<and>
   nullish (opt_releaseWorkflow ex_options_no_branch) (\<not> base_parent ex_base) \<and>
   (\<exists>this. NodeProject_constructor ex_collaborators ex_options_no_branch ex_base
             = Inl (DefaultReleaseBranchRequired, this)) \<and>
   DefaultReleaseBranchRequired \<notin>
     {ReleaseToNpmNotSupported, ReleaseBranchesNotSupported,
      ReleaseEveryCommitNotSupported, ReleaseScheduleNotSupported}"
proof -
  have d: "\<not> nullish (opt_releaseWorkflow ex_options_no_release) (\<not> base_parent ex_base)"
    and n: "opt_releaseToNpm ex_options_no_release = Some True"
    by (simp_all add: ex_options_no_release_def ex_options_def nullish_def)
  have en: "nullish (opt_releaseWorkflow ex_options_no_branch) (\<not> base_parent ex_base)"
    by (simp add: ex_options_no_branch_def ex_options_def ex_base_def nullish_def)
  note thm1 = release_options_need_release_workflow
    [of ex_options_no_release ex_base ex_collaborators]
  note thm2 = release_options_need_release_workflow
    [of ex_options_no_branch ex_base ex_collaborators]
  from thm1 d n obtain e this where
    f: "NodeProject_constructor ex_collaborators ex_options_no_release ex_base = Inl (e, this)"
    by blast
  with ex_no_release_fails have 1:
    "\<exists>this. NodeProject_constructor ex_collaborators ex_options_no_release ex_base
             = Inl (ReleaseToNpmNotSupported, this)"
    by auto
  from ex_no_branch_fails obtain t where
    g: "NodeProject_constructor ex_collaborators ex_options_no_branch ex_base
          = Inl (DefaultReleaseBranchRequired, t)"
    by blast
  from thm2 en g have 2: "DefaultReleaseBranchRequired \<notin>
     {ReleaseToNpmNotSupported, ReleaseBranchesNotSupported,
      ReleaseEveryCommitNotSupported, ReleaseScheduleNotSupported}"
    by blast
  from d n 1 en g 2 show ?thesis by blast
qed


subsection \<open>The two upgrade mechanisms\<close>

text \<open>
  Claim C5. When both the bot-driven option and the upgrade mechanism are set, the
  assembly raises an error: the one of the conflicting mechanisms, unless an earlier
  check has already raised. When neither is set, the mechanism that is bound is the
  custom pipeline with default options, and every successful assembly has registered its
  pipeline right after the pipelines the project already had.
\<close>

theorem upgrade_mechanisms_exclusive:
  "(opt_dependabot options \<noteq> None \<and> opt_depsUpgrade options \<noteq> None
    \<longrightarrow> (\<exists>e this. NodeProject_constructor cs options base = Inl (e, this) \<and>
          (e = DependabotWithDepsUpgrade \<or>
           e \<in> {NpmignoreNotDefined, DefaultReleaseBranchRequired, NoGithubSupport,
                ReleaseToNpmNotSupported, ReleaseBranchesNotSupported,
                ReleaseEveryCommitNotSupported, ReleaseScheduleNotSupported}))) \<and>
   (opt_dependabot options = None \<and> opt_depsUpgrade options = None
    \<longrightarrow> dependenciesUpgrade options = githubWorkflow githubWorkflow_default \<and>
        (\<forall>this. NodeProject_constructor cs options base = Inr this \<longrightarrow>
           (\<exists>rest. upgradePipelines (components this) =
              upgradePipelines (base_components base) @ [githubWorkflow_default] @ rest)))"
proof (intro conjI impI allI)
  assume h: "opt_dependabot options \<noteq> None \<and> opt_depsUpgrade options \<noteq> None"
  let ?P = "\<lambda>e. e = DependabotWithDepsUpgrade \<or>
           e \<in> {NpmignoreNotDefined, DefaultReleaseBranchRequired, NoGithubSupport,
                ReleaseToNpmNotSupported, ReleaseBranchesNotSupported,
                ReleaseEveryCommitNotSupported, ReleaseScheduleNotSupported}"
  show "\<exists>e this. NodeProject_constructor cs options base = Inl (e, this) \<and> ?P e"
  proof (cases "NodeProject_constructor cs options base")
    case (Inr this)
    from constructor_Inr [OF Inr] h show ?thesis by blast
  next
    case (Inl x)
    obtain e t where x: "x = (e, t)" by (cases x)
    have "?P e"
      using constructor_Inl [OF Inl [unfolded x]]
    proof (elim disjE exE conjE)
      assume "ctor_npmignore options (ctor_files options (ctor_tasks cs options base)) = Inl (e, t)"
      from stage1_Inl(1) [OF this] show ?thesis by simp
    next
      fix t1 assume "e = DefaultReleaseBranchRequired"
      then show ?thesis by simp
    next
      fix t1
      assume "ctor_npmignore options (ctor_files options (ctor_tasks cs options base)) = Inr t1"
        and "ctor_build cs options (ctor_jest cs options (ctor_projen cs options t1)) = Inl (e, t)"
      from stage3_fails(1) [OF this] show ?thesis by simp
    next
      fix t1 t3
      assume "ctor_release cs options t3 = Inl (e, t)"
      from ctor_release_Inl [OF this] show ?thesis by auto
    next
      fix t1 t3 t4 assume "e = DependabotWithDepsUpgrade"
      then show ?thesis by simp
    qed
    with Inl x show ?thesis by blast
  qed
next
  assume "opt_dependabot options = None \<and> opt_depsUpgrade options = None"
  then show "dependenciesUpgrade options = githubWorkflow githubWorkflow_default"
    by (simp add: default_mechanism)
next
  fix this
  assume n: "opt_dependabot options = None \<and> opt_depsUpgrade options = None"
    and r: "NodeProject_constructor cs options base = Inr this"
  from n have d: "dependenciesUpgrade options = githubWorkflow githubWorkflow_default"
    by (simp add: default_mechanism)
  from constructor_Inr_summary(4) [OF r]
  show "\<exists>rest. upgradePipelines (components this) =
              upgradePipelines (base_components base) @ [githubWorkflow_default] @ rest"
    unfolding d by (simp add: default_mechanism_closure)
qed

theorem upgrade_mechanisms_exclusive_witness:
  "opt_dependabot ex_options_both_upgrades \<noteq> None \<and>
   opt_depsUpgrade ex_options_both_upgrades \<noteq> None \<and>
   (\<exists>this. NodeProject_constructor ex_collaborators ex_options_both_upgrades ex_base
             = Inl (DependabotWithDepsUpgrade, this)) \<and>
   opt_dependabot ex_options = None \<and> opt_depsUpgrade ex_options = None \<and>
   dependenciesUpgrade ex_options = githubWorkflow githubWorkflow_default \<and>
   (\<exists>this rest. NodeProject_constructor ex_collaborators ex_options ex_base = Inr this \<and>
      upgradePipelines (components this) = [githubWorkflow_default] @ rest)"
proof -
  have b: "opt_dependabot ex_options_both_upgrades \<noteq> None"
    "opt_depsUpgrade ex_options_both_upgrades \<noteq> None"
    by (simp_all add: ex_options_both_upgrades_def ex_options_def)
  have n: "opt_dependabot ex_options = None" "opt_depsUpgrade ex_options = None"
    by (simp_all add: ex_options_def)
  note thm1 = upgrade_mechanisms_exclusive
    [of ex_options_both_upgrades ex_collaborators ex_base]
  note thm2 = upgrade_mechanisms_exclusive [of ex_options ex_collaborators ex_base]
  from thm1 b obtain e this where
    "NodeProject_constructor ex_collaborators ex_options_both_upgrades ex_base = Inl (e, this)"
    by blast
  with ex_both_upgrades_fails have 1:
    "\<exists>this. NodeProject_constructor ex_collaborators ex_options_both_upgrades ex_base
             = Inl (DependabotWithDepsUpgrade, this)"
    by auto
  from thm2 n have 2: "dependenciesUpgrade ex_options = githubWorkflow githubWorkflow_default"
    by blast
  obtain this where r: "NodeProject_constructor ex_collaborators ex_options ex_base = Inr this"
    using ex_constructor_returns by blast
  from thm2 n r obtain rest where
    "upgradePipelines (components this) =
       upgradePipelines (base_components ex_base) @ [githubWorkflow_default] @ rest"
    by blast
  then have "upgradePipelines (components this) = [githubWorkflow_default] @ rest"
    by (simp add: ex_base_def)
  with r have 3: "\<exists>this rest. NodeProject_constructor ex_collaborators ex_options ex_base = Inr this \<and>
      upgradePipelines (components this) = [githubWorkflow_default] @ rest"
    by blast
  from b n 1 2 3 show ?thesis by blast
qed


subsection \<open>The pipeline that upgrades the generator\<close>

text \<open>
  Claim C8. When the bound mechanism leaves the generator out of its scope (which is the
  default) and the package is not the generator itself, a successful assembly has
  registered exactly one more upgrade pipeline, after those of the project and of the
  mechanism: it includes only \<^verbatim>\<open>projen\<close>, runs on the caller's cron expressions or on
  \<^verbatim>\<open>0 6 * * *\<close>, has its workflow switched on exactly when a non-empty credential name
  is supplied, carries that credential name, and is labelled with the auto-merge label
  when the upgrade auto-merge option is not switched off and the project has an
  auto-merge collaborator with a non-empty label; that collaborator exists exactly when
  the CI-integration collaborator has merge automation.
\<close>

theorem projen_upgrade_pipeline:
  assumes "NodeProject_constructor cs options base = Inr this"
    and "ignoresProjen (dependenciesUpgrade options)"
    and "packageName (newNodePackage cs) \<noteq> ''projen''"
  shows "\<exists>u w. upgradePipelines (components this) =
           upgradePipelines (base_components base) @
           (case closure (dependenciesUpgrade options) of
              BindGithubWorkflow m \<Rightarrow> [m] | _ \<Rightarrow> []) @ [u] \<and>
         udo_include u = Some [''projen''] \<and>
         udo_taskName u = Some ''upgrade-projen'' \<and>
         udo_pullRequestTitle u = Some ''upgrade projen'' \<and>
         udo_ignoreProjen u = Some False \<and>
         udo_workflow u = Some (truthy_str (opt_projenUpgradeSecret options)) \<and>
         udo_workflowOptions u = Some w \<and>
         schedule w = Some (expressions
           (case opt_projenUpgradeSchedule options of
              None \<Rightarrow> [''0 6 * * *''] | Some crons \<Rightarrow> crons)) \<and>
         secret w = opt_projenUpgradeSecret options \<and>
         labels w = Some
           (case autoMerge this of
              None \<Rightarrow> []
            | Some am \<Rightarrow>
                if nullish (opt_projenUpgradeAutoMerge options) True \<and> autoMergeLabel am \<noteq> []
                then [autoMergeLabel am] else []) \<and>
         (autoMerge this \<noteq> None \<longleftrightarrow> hasMergify (base_github base))"
proof -
  let ?u = "projenUpgradeOptions options this"
  let ?w = "the (udo_workflowOptions ?u)"
  have 1: "upgradePipelines (components this) =
           upgradePipelines (base_components base) @
           (case closure (dependenciesUpgrade options) of
              BindGithubWorkflow m \<Rightarrow> [m] | _ \<Rightarrow> []) @ [?u]"
    using constructor_Inr_summary(4) [OF assms(1)] assms(2,3) by simp
  have 2: "udo_include ?u = Some [''projen'']" "udo_taskName ?u = Some ''upgrade-projen''"
    "udo_pullRequestTitle ?u = Some ''upgrade projen''" "udo_ignoreProjen ?u = Some False"
    "udo_workflow ?u = Some (truthy_str (opt_projenUpgradeSecret options))"
    "udo_workflowOptions ?u = Some ?w"
    by (simp_all add: projenUpgradeOptions_def Let_def)
  have 3: "schedule ?w = Some (expressions
           (case opt_projenUpgradeSchedule options of
              None \<Rightarrow> [''0 6 * * *''] | Some crons \<Rightarrow> crons))"
    "secret ?w = opt_projenUpgradeSecret options"
    "labels ?w = Some
           (case autoMerge this of
              None \<Rightarrow> []
            | Some am \<Rightarrow>
                if nullish (opt_projenUpgradeAutoMerge options) True \<and> autoMergeLabel am \<noteq> []
                then [autoMergeLabel am] else [])"
    by (simp_all add: projenUpgradeOptions_def Let_def)
       (simp add: nullish_def)
  note 4 = constructor_Inr_summary(3) [OF assms(1)]
  from 1 2 3 4 show ?thesis by blast
qed

theorem projen_upgrade_pipeline_witness:
  "\<exists>this u w. NodeProject_constructor ex_collaborators ex_options ex_base = Inr this \<and>
      ignoresProjen (dependenciesUpgrade ex_options) \<and>
      packageName (newNodePackage ex_collaborators) \<noteq> ''projen'' \<and>
      upgradePipelines (components this) = [githubWorkflow_default, u] \<and>
      udo_include u = Some [''projen''] \<and>
      udo_workflow u = Some False \<and>
      udo_workflowOptions u = Some w \<and>
      schedule w = Some (expressions [''0 6 * * *'']) \<and>
      secret w = None \<and>
      autoMerge this \<noteq> None"
proof -
  obtain this where r: "NodeProject_constructor ex_collaborators ex_options ex_base = Inr this"
    using ex_constructor_returns by blast
  have d: "dependenciesUpgrade ex_options = githubWorkflow githubWorkflow_default"
    by (simp add: default_mechanism ex_options_def)
  have i: "ignoresProjen (dependenciesUpgrade ex_options)"
    unfolding d by (rule default_mechanism_closure(2))
  have p: "packageName (newNodePackage ex_collaborators) \<noteq> ''projen''"
    by (simp add: ex_collaborators_def ex_package_def)
  from projen_upgrade_pipeline [OF r i p] obtain u w where
    1: "upgradePipelines (components this) =
           upgradePipelines (base_components ex_base) @
           (case closure (dependenciesUpgrade ex_options) of
              BindGithubWorkflow m \<Rightarrow> [m] | _ \<Rightarrow> []) @ [u]"
    and 2: "udo_include u = Some [''projen'']"
      "udo_workflow u = Some (truthy_str (opt_projenUpgradeSecret ex_options))"
      "udo_workflowOptions u = Some w"
      "schedule w = Some (expressions
           (case opt_projenUpgradeSchedule ex_options of
              None \<Rightarrow> [''0 6 * * *''] | Some crons \<Rightarrow> crons))"
      "secret w = opt_projenUpgradeSecret ex_options"
    and 3: "autoMerge this \<noteq> None \<longleftrightarrow> hasMergify (base_github ex_base)"
    by blast
  have q1: "upgradePipelines (components this) = [githubWorkflow_default, u]"
    unfolding 1 d by (simp add: default_mechanism_closure(1) ex_base_def)
  have q2: "udo_workflow u = Some False" "schedule w = Some (expressions [''0 6 * * *''])"
    "secret w = None"
    unfolding 2 by (simp_all add: ex_options_def truthy_str_def)
  have q3: "autoMerge this \<noteq> None"
    unfolding 3 by (simp add: hasMergify_def ex_base_def ex_github_def)
  from r i p q1 2(1) q2(1) 2(3) q2(2,3) q3 show ?thesis
    by (intro exI [of _ this] exI [of _ u] exI [of _ w] conjI)
qed


subsection \<open>The state that a failed assembly leaves behind\<close>

text \<open>
  Claim C7, as the code has it. An error stops the assembly at the failing check, and
  what was registered before that check stays registered: in every failed assembly the
  task registry holds the four tasks of the constructor (compile, test:compile, test,
  build); no upgrade pipeline has been registered, since the mechanism is bound after the
  last check; a failure of the ignore-file or default-branch check leaves the
  CI-integration collaborator as the base class provided it, with no test framework,
  release or auto-merge collaborator. A failed call of the builder leaves the project
  unchanged when the CI-integration collaborator is missing, and leaves the newly added
  workflow, without triggers and without jobs, registered when the trigger is rejected.
\<close>

theorem failed_assembly_keeps_earlier_registrations:
  "(NodeProject_constructor cs options base = Inl (e, this) \<longrightarrow>
      {''compile'', ''test:compile'', ''test'', ''build''}
        \<subseteq> set (map task_name (tasks this)) \<and>
      upgradePipelines (components this) = upgradePipelines (base_components base) \<and>
      (e = NpmignoreNotDefined \<or> e = DefaultReleaseBranchRequired \<longrightarrow>
         github this = base_github base \<and> jest this = None \<and> release this = None \<and>
         autoMerge this = None)) \<and>
   (createBuildWorkflow nm build_options project = Inl (e', project') \<longrightarrow>
      e' = NoGithubSupport \<and> github project = None \<and> project' = project \<or>
      e' = IssueCommentTrigger \<and>
      (\<exists>gh. github project = Some gh \<and>
            project' = project\<lparr>github := Some (gh\<lparr>workflows := workflows gh @
              [\<lparr>wf_name = nm, wf_events = Map.empty, wf_jobs = []\<rparr>]\<rparr>)\<rparr>))"
proof -
  let ?T = "map task_name (tasks this) =
        map task_name (base_tasks base) @ [''compile'', ''test:compile'', ''test'', ''build'']"
  let ?U = "upgradePipelines (components this) = upgradePipelines (base_components base)"
  let ?E = "e = NpmignoreNotDefined \<or> e = DefaultReleaseBranchRequired \<longrightarrow>
         github this = base_github base \<and> jest this = None \<and> release this = None \<and>
         autoMerge this = None"
  have A: "?T \<and> ?U \<and> ?E" if f: "NodeProject_constructor cs options base = Inl (e, this)"
    using constructor_Inl [OF f]
  proof (elim disjE exE conjE)
    assume a: "ctor_npmignore options (ctor_files options (ctor_tasks cs options base)) = Inl (e, this)"
    from stage1_Inl [OF a] show ?thesis by simp
  next
    fix t1
    assume a: "ctor_npmignore options (ctor_files options (ctor_tasks cs options base)) = Inr t1"
      and t: "this = ctor_projen cs options t1"
    from stage2_projen_fields [OF a] t show ?thesis by simp
  next
    fix t1
    assume a: "ctor_npmignore options (ctor_files options (ctor_tasks cs options base)) = Inr t1"
      and b: "ctor_build cs options (ctor_jest cs options (ctor_projen cs options t1)) = Inl (e, this)"
    from stage3_fails [OF a b] stage2_fields [OF a] show ?thesis by simp
  next
    fix t1 t3
    assume a: "ctor_npmignore options (ctor_files options (ctor_tasks cs options base)) = Inr t1"
      and b: "ctor_build cs options (ctor_jest cs options (ctor_projen cs options t1)) = Inr t3"
      and r: "ctor_release cs options t3 = Inl (e, this)"
    from ctor_release_Inl [OF r] stage3_Inr [OF a b] show ?thesis by auto
  next
    fix t1 t3 t4
    assume a: "ctor_npmignore options (ctor_files options (ctor_tasks cs options base)) = Inr t1"
      and b: "ctor_build cs options (ctor_jest cs options (ctor_projen cs options t1)) = Inr t3"
      and r: "ctor_release cs options t3 = Inr t4"
      and e: "e = DependabotWithDepsUpgrade" and t: "this = ctor_autoMerge cs options t4"
    from stage4_Inr [OF a b r] e t show ?thesis by (simp add: ctor_autoMerge_fields)
  qed
  have A': "{''compile'', ''test:compile'', ''test'', ''build''}
              \<subseteq> set (map task_name (tasks this)) \<and> ?U \<and> ?E"
    if f: "NodeProject_constructor cs options base = Inl (e, this)"
  proof -
    from A [OF f] have t: ?T and u: ?U and e: ?E by simp_all
    have "{''compile'', ''test:compile'', ''test'', ''build''}
              \<subseteq> set (map task_name (tasks this))"
      unfolding t by simp
    with u e show ?thesis by simp
  qed
  have B: "e' = NoGithubSupport \<and> github project = None \<and> project' = project \<or>
      e' = IssueCommentTrigger \<and>
      (\<exists>gh. github project = Some gh \<and>
            project' = project\<lparr>github := Some (gh\<lparr>workflows := workflows gh @
              [\<lparr>wf_name = nm, wf_events = Map.empty, wf_jobs = []\<rparr>]\<rparr>)\<rparr>)"
    if "createBuildWorkflow nm build_options project = Inl (e', project')"
    using that
    by (cases "github project")
       (auto simp add: createBuildWorkflow_def addWorkflow_def Let_def split: if_splits)
  show ?thesis
    by (rule conjI, (rule impI, erule A'), (rule impI, erule B))
qed

theorem failed_assembly_keeps_earlier_registrations_witness:
  "(\<exists>this. NodeProject_constructor ex_collaborators ex_options_no_branch ex_base
             = Inl (DefaultReleaseBranchRequired, this) \<and>
      {''compile'', ''test:compile'', ''test'', ''build''}
        \<subseteq> set (map task_name (tasks this)) \<and>
      upgradePipelines (components this) = [] \<and>
      github this = Some ex_github \<and> jest this = None \<and> release this = None \<and>
      autoMerge this = None) \<and>
   (\<exists>project'. createBuildWorkflow ''Build'' ex_comment_trigger_options ex_this
             = Inl (IssueCommentTrigger, project') \<and>
      project' = ex_this\<lparr>github := Some (ex_github\<lparr>workflows := workflows ex_github @
            [\<lparr>wf_name = ''Build'', wf_events = Map.empty, wf_jobs = []\<rparr>]\<rparr>)\<rparr>)"
proof -
  obtain t where f: "NodeProject_constructor ex_collaborators ex_options_no_branch ex_base
          = Inl (DefaultReleaseBranchRequired, t)"
    using ex_no_branch_fails by blast
  note inst = failed_assembly_keeps_earlier_registrations
    [of ex_collaborators ex_options_no_branch ex_base DefaultReleaseBranchRequired t
        "''Build''" ex_comment_trigger_options ex_this IssueCommentTrigger
        "ex_this\<lparr>github := Some (ex_github\<lparr>workflows := workflows ex_github @
            [\<lparr>wf_name = ''Build'', wf_events = Map.empty, wf_jobs = []\<rparr>]\<rparr>)\<rparr>"]
  from inst f have a:
    "{''compile'', ''test:compile'', ''test'', ''build''} \<subseteq> set (map task_name (tasks t))"
    "upgradePipelines (components t) = upgradePipelines (base_components ex_base)"
    "github t = base_github ex_base" "jest t = None" "release t = None" "autoMerge t = None"
    by simp_all
  have b: "upgradePipelines (components t) = []" "github t = Some ex_github"
    unfolding a by (simp_all add: ex_base_def)
  from f a(1) b a(4,5,6) have 1: "\<exists>this. NodeProject_constructor ex_collaborators ex_options_no_branch ex_base
             = Inl (DefaultReleaseBranchRequired, this) \<and>
      {''compile'', ''test:compile'', ''test'', ''build''}
        \<subseteq> set (map task_name (tasks this)) \<and>
      upgradePipelines (components this) = [] \<and>
      github this = Some ex_github \<and> jest this = None \<and> release this = None \<and>
      autoMerge this = None"
    by (intro exI [of _ t] conjI)
  from ex_comment_trigger_fails have 2:
    "\<exists>project'. createBuildWorkflow ''Build'' ex_comment_trigger_options ex_this
             = Inl (IssueCommentTrigger, project') \<and>
      project' = ex_this\<lparr>github := Some (ex_github\<lparr>workflows := workflows ex_github @
            [\<lparr>wf_name = ''Build'', wf_events = Map.empty, wf_jobs = []\<rparr>]\<rparr>)\<rparr>"
    by simp
  from 1 2 show ?thesis by (rule conjI)
qed

text \<open>
  The claim as it was stated fails on options without a default release branch: the
  assembly raises, and by then the task registry, empty before, holds the four tasks and
  the package holds the generator as a development dependency.
\<close>

theorem failed_assembly_registers_tasks_counterexample:
  "isl (NodeProject_constructor ex_collaborators ex_options_no_branch ex_base) \<and>
   base_tasks ex_base = [] \<and>
   map task_name (tasks (snd (projl
     (NodeProject_constructor ex_collaborators ex_options_no_branch ex_base))))
     = [''compile'', ''test:compile'', ''test'', ''build''] \<and>
   devDeps (newNodePackage ex_collaborators) = [] \<and>
   devDeps (package (snd (projl
     (NodeProject_constructor ex_collaborators ex_options_no_branch ex_base))))
     = [''projen@^0.17.0'']"
proof -
  obtain t where f: "NodeProject_constructor ex_collaborators ex_options_no_branch ex_base
          = Inl (DefaultReleaseBranchRequired, t)"
    and a: "map task_name (tasks t) = [''compile'', ''test:compile'', ''test'', ''build'']"
    and b: "devDeps (package t) = [''projen@^0.17.0'']"
    using ex_no_branch_fails by auto
  have c: "base_tasks ex_base = []" "devDeps (newNodePackage ex_collaborators) = []"
    by (simp_all add: ex_base_def ex_collaborators_def ex_package_def)
  show ?thesis unfolding f using a b c by simp
qed


end
